theory Spec2Isabelle
  imports Main
begin

section \<open>The Redshift snapshot copy grant resource\<close>

text \<open>
  A shallow embedding of \<^verbatim>\<open>aws/resource_aws_redshift_snapshot_copy_grant.go\<close>.
  A Go value of interface type \<^verbatim>\<open>error\<close> or of pointer type is an \<open>option\<close>
  (\<open>None\<close> is \<^verbatim>\<open>nil\<close>); a function of this file returning \<^verbatim>\<open>(x, err)\<close> returns a
  pair, and a call of the SDK client, which returns either an output or an error, a sum.
  The remote service is an oracle that answers every request from the calls made so far,
  and every call is appended to a trace. A function of the source that may run forever
  returns \<open>None\<close> when it does.
\<close>

subsection \<open>Requests, responses and errors\<close>

text \<open>A \<^verbatim>\<open>redshift.Tag\<close>: key and value.\<close>

type_synonym RedshiftTag = "string \<times> string"

text \<open>
  The value of the schema's \<^verbatim>\<open>tags\<close> attribute (a Go map from strings to strings),
  as the list of its entries in key order.
\<close>

type_synonym tagmap = "(string \<times> string) list"

text \<open>
  \<^verbatim>\<open>redshift.SnapshotCopyGrant\<close>. The name is dereferenced without a check by the
  source (\<^verbatim>\<open>*grant.SnapshotCopyGrantName\<close>), so it is taken as always present, as the
  service sends it; the key id stays a pointer.
\<close>

record SnapshotCopyGrant =
  grant_KmsKeyId :: "string option"
  grant_SnapshotCopyGrantName :: string
  grant_Tags :: "RedshiftTag list"

record DescribeSnapshotCopyGrantsInput =
  dsi_MaxRecords :: "int option"
  dsi_Marker :: "string option"
  dsi_SnapshotCopyGrantName :: "string option"

record DescribeSnapshotCopyGrantsOutput =
  dso_Marker :: "string option"
  dso_SnapshotCopyGrants :: "SnapshotCopyGrant list"

record CreateSnapshotCopyGrantInput =
  csi_SnapshotCopyGrantName :: "string option"
  csi_KmsKeyId :: "string option"
  csi_Tags :: "RedshiftTag list"

record CreateSnapshotCopyGrantOutput =
  cso_SnapshotCopyGrant :: SnapshotCopyGrant

record DeleteSnapshotCopyGrantInput =
  dli_SnapshotCopyGrantName :: "string option"

text \<open>An \<^verbatim>\<open>awserr.Error\<close> of the SDK client: its code and its message.\<close>

type_synonym awserr = "string \<times> string"

text \<open>
  The error values the file handles: the SDK's errors, \<^verbatim>\<open>*resource.NotFoundError\<close>
  (message and last request), \<^verbatim>\<open>*resource.TimeoutError\<close>, an error made by
  \<^verbatim>\<open>fmt.Errorf\<close> from a prefix and the text of another error (the \<^verbatim>\<open>%s\<close> verb keeps
  the text only, so such an error is of none of the other kinds), and an error made from
  a plain text.
\<close>

datatype error =
    AWSError string string
  | NotFoundError string DescribeSnapshotCopyGrantsInput
  | TimeoutError
  | Errorf string error
  | ErrorString string

text \<open>One call to the service, with its answer.\<close>

datatype call =
    DescribeCall DescribeSnapshotCopyGrantsInput "awserr + DescribeSnapshotCopyGrantsOutput"
  | CreateCall CreateSnapshotCopyGrantInput "awserr + CreateSnapshotCopyGrantOutput"
  | DeleteCall DeleteSnapshotCopyGrantInput "awserr option"
  | UpdateTagsCall string tagmap tagmap "error option"

text \<open>
  The client \<^verbatim>\<open>*redshift.Redshift\<close> with the service behind it and the clock: what the
  service answers to a request after the calls made so far, what
  \<^verbatim>\<open>keyvaluetags.RedshiftUpdateTags\<close> (not in this file) returns, and how many runs of
  a retried function finish before the timeout of a \<^verbatim>\<open>resource.Retry\<close> started
  after the calls made so far.
\<close>

record Redshift =
  describeResp :: "call list \<Rightarrow> DescribeSnapshotCopyGrantsInput \<Rightarrow> awserr + DescribeSnapshotCopyGrantsOutput"
  createResp :: "call list \<Rightarrow> CreateSnapshotCopyGrantInput \<Rightarrow> awserr + CreateSnapshotCopyGrantOutput"
  deleteResp :: "call list \<Rightarrow> DeleteSnapshotCopyGrantInput \<Rightarrow> awserr option"
  updateTagsResp :: "call list \<Rightarrow> string \<Rightarrow> tagmap \<Rightarrow> tagmap \<Rightarrow> error option"
  retryBudget :: "call list \<Rightarrow> nat"

definition DescribeSnapshotCopyGrants ::
  "Redshift \<Rightarrow> DescribeSnapshotCopyGrantsInput \<Rightarrow> call list \<Rightarrow>
   (error + DescribeSnapshotCopyGrantsOutput) \<times> call list" where
  "DescribeSnapshotCopyGrants conn input tr =
     (let r = describeResp conn tr input in
      ((case r of Inl (c, m) \<Rightarrow> Inl (AWSError c m) | Inr out \<Rightarrow> Inr out),
       tr @ [DescribeCall input r]))"

definition CreateSnapshotCopyGrant ::
  "Redshift \<Rightarrow> CreateSnapshotCopyGrantInput \<Rightarrow> call list \<Rightarrow>
   (error + CreateSnapshotCopyGrantOutput) \<times> call list" where
  "CreateSnapshotCopyGrant conn input tr =
     (let r = createResp conn tr input in
      ((case r of Inl (c, m) \<Rightarrow> Inl (AWSError c m) | Inr out \<Rightarrow> Inr out),
       tr @ [CreateCall input r]))"

definition DeleteSnapshotCopyGrant ::
  "Redshift \<Rightarrow> DeleteSnapshotCopyGrantInput \<Rightarrow> call list \<Rightarrow> error option \<times> call list" where
  "DeleteSnapshotCopyGrant conn input tr =
     (let r = deleteResp conn tr input in
      ((case r of Some (c, m) \<Rightarrow> Some (AWSError c m) | None \<Rightarrow> None),
       tr @ [DeleteCall input r]))"

definition RedshiftUpdateTags ::
  "Redshift \<Rightarrow> string \<Rightarrow> tagmap \<Rightarrow> tagmap \<Rightarrow> call list \<Rightarrow> error option \<times> call list" where
  "RedshiftUpdateTags conn identifier oldTags newTags tr =
     (let r = updateTagsResp conn tr identifier oldTags newTags in
      (r, tr @ [UpdateTagsCall identifier oldTags newTags r]))"

subsection \<open>Helpers of the provider and of the plugin SDK\<close>

definition ErrCodeSnapshotCopyGrantNotFoundFault :: string where
  "ErrCodeSnapshotCopyGrantNotFoundFault = ''SnapshotCopyGrantNotFoundFault''"

primrec strings_Contains :: "string \<Rightarrow> string \<Rightarrow> bool" where
  "strings_Contains [] substr = (substr = [])"
| "strings_Contains (c # cs) substr =
     (take (length substr) (c # cs) = substr \<or> strings_Contains cs substr)"

text \<open>
  Modelled from the spec: \<^verbatim>\<open>isAWSErr\<close> is in the provider's \<^verbatim>\<open>awserr.go\<close>, not in this
  file. It recognises "the vendor's error codes": an SDK error with the given code whose
  message contains the given text.
\<close>

fun isAWSErr :: "error option \<Rightarrow> string \<Rightarrow> string \<Rightarrow> bool" where
  "isAWSErr (Some (AWSError c m)) code message = (c = code \<and> strings_Contains m message)"
| "isAWSErr _ code message = False"

text \<open>
  Modelled from the spec: \<^verbatim>\<open>isResourceTimeoutError\<close> is in the provider's
  \<^verbatim>\<open>awserr.go\<close>, not in this file. It recognises the timeout of a retry.
\<close>

fun isResourceTimeoutError :: "error option \<Rightarrow> bool" where
  "isResourceTimeoutError (Some TimeoutError) = True"
| "isResourceTimeoutError _ = False"

text \<open>The type assertion \<^verbatim>\<open>err.(*resource.NotFoundError)\<close>.\<close>

fun isNotFoundError :: "error \<Rightarrow> bool" where
  "isNotFoundError (NotFoundError m r) = True"
| "isNotFoundError _ = False"

text \<open>\<^verbatim>\<open>*resource.RetryError\<close>: an error and whether to retry.\<close>

datatype RetryError = Retryable error | NonRetryable error

definition RetryableError :: "error \<Rightarrow> RetryError option" where
  "RetryableError err = Some (Retryable err)"

text \<open>
  \<^verbatim>\<open>resource.NonRetryableError\<close> takes a Go \<^verbatim>\<open>error\<close>, which may be \<^verbatim>\<open>nil\<close>; the
  result for \<^verbatim>\<open>nil\<close> is \<^verbatim>\<open>nil\<close>.
\<close>

definition NonRetryableError :: "error option \<Rightarrow> RetryError option" where
  "NonRetryableError err = (case err of None \<Rightarrow> None | Some e \<Rightarrow> Some (NonRetryable e))"

text \<open>
  Modelled from the spec: \<^verbatim>\<open>resource.Retry\<close> is the plugin SDK's, not in this file. It
  is "retry-until-timeout polling": the function is run again while it asks for a retry,
  and its success, its non-retryable error and the timeout end the polling. Time is not
  modelled: \<open>n\<close> is the number of runs that finish before the timeout. At the timeout
  the SDK returns the error of the last run when a run has finished (its variable
  \<^verbatim>\<open>resultErr\<close>, the first argument of \<open>RetryFrom\<close>), and a \<^verbatim>\<open>*resource.TimeoutError\<close>
  only when none has. The state \<open>s\<close> holds the variables the retried closure assigns and
  the trace.
\<close>

fun RetryFrom ::
  "error option \<Rightarrow> nat \<Rightarrow> ('s \<Rightarrow> (RetryError option \<times> 's) option) \<Rightarrow> 's \<Rightarrow>
   (error option \<times> 's) option" where
  "RetryFrom resultErr 0 f s =
     Some ((case resultErr of None \<Rightarrow> Some TimeoutError | Some e \<Rightarrow> Some e), s)"
| "RetryFrom resultErr (Suc n) f s =
     (case f s of
        None \<Rightarrow> None
      | Some (None, s') \<Rightarrow> Some (None, s')
      | Some (Some (Retryable e), s') \<Rightarrow> RetryFrom (Some e) n f s'
      | Some (Some (NonRetryable e), s') \<Rightarrow> Some (Some e, s'))"

definition Retry ::
  "nat \<Rightarrow> ('s \<Rightarrow> (RetryError option \<times> 's) option) \<Rightarrow> 's \<Rightarrow> (error option \<times> 's) option" where
  "Retry n f s = RetryFrom None n f s"

subsection \<open>The lookup by name\<close>

fun getAwsRedshiftSnapshotCopyGrant :: "SnapshotCopyGrant list \<Rightarrow> string \<Rightarrow> SnapshotCopyGrant option" where
  "getAwsRedshiftSnapshotCopyGrant [] grantName = None"
| "getAwsRedshiftSnapshotCopyGrant (grant # grants) grantName =
     (if grant_SnapshotCopyGrantName grant = grantName then Some grant
      else getAwsRedshiftSnapshotCopyGrant grants grantName)"

text \<open>The request of one page: the name on the first page, the marker afterwards.\<close>

definition describeInput :: "string \<Rightarrow> string option \<Rightarrow> DescribeSnapshotCopyGrantsInput" where
  "describeInput grantName marker =
     (let input = \<lparr>dsi_MaxRecords = Some 100, dsi_Marker = None, dsi_SnapshotCopyGrantName = None\<rparr>
      in case marker of
           Some m \<Rightarrow> input\<lparr>dsi_Marker := Some m\<rparr>
         | None \<Rightarrow> input\<lparr>dsi_SnapshotCopyGrantName := Some grantName\<rparr>)"

definition grantNotFound :: "string \<Rightarrow> DescribeSnapshotCopyGrantsInput \<Rightarrow> error" where
  "grantNotFound grantName input =
     NotFoundError (''[DEBUG] Grant '' @ grantName @ '' not found'') input"

text \<open>
  The recursion follows the markers for as long as the service returns one: nothing
  bounds it, so the function is partial.
\<close>

partial_function (option) findAwsRedshiftSnapshotCopyGrant ::
  "Redshift \<Rightarrow> string \<Rightarrow> string option \<Rightarrow> call list \<Rightarrow>
   ((SnapshotCopyGrant option \<times> error option) \<times> call list) option" where
  "findAwsRedshiftSnapshotCopyGrant conn grantName marker tr =
     (let input = describeInput grantName marker in
      case DescribeSnapshotCopyGrants conn input tr of
        (Inl err, tr') \<Rightarrow> Some ((None, Some err), tr')
      | (Inr out, tr') \<Rightarrow>
          (case getAwsRedshiftSnapshotCopyGrant (dso_SnapshotCopyGrants out) grantName of
             Some grant \<Rightarrow> Some ((Some grant, None), tr')
           | None \<Rightarrow>
               (case dso_Marker out of
                  Some m \<Rightarrow> findAwsRedshiftSnapshotCopyGrant conn grantName (Some m) tr'
                | None \<Rightarrow> Some ((None, Some (grantNotFound grantName input)), tr'))))"

declare findAwsRedshiftSnapshotCopyGrant.simps [code]

subsection \<open>The two polling helpers\<close>

text \<open>
  The closure retried by \<^verbatim>\<open>findAwsRedshiftSnapshotCopyGrantWithRetry\<close>. It assigns
  the variable \<^verbatim>\<open>grant\<close> of the enclosing function, the first component of the state.
\<close>

definition findRetryFunc ::
  "Redshift \<Rightarrow> string \<Rightarrow> SnapshotCopyGrant option \<times> call list \<Rightarrow>
   (RetryError option \<times> (SnapshotCopyGrant option \<times> call list)) option" where
  "findRetryFunc conn grantName s =
     (case findAwsRedshiftSnapshotCopyGrant conn grantName None (snd s) of
        None \<Rightarrow> None
      | Some ((grant, err), tr') \<Rightarrow>
          (case err of
             Some serr \<Rightarrow>
               if isNotFoundError serr then Some (RetryableError serr, (grant, tr'))
               else Some (NonRetryableError err, (grant, tr'))
           | None \<Rightarrow> Some (None, (grant, tr'))))"

text \<open>
  The lines of \<^verbatim>\<open>findAwsRedshiftSnapshotCopyGrantWithRetry\<close> after the retry: from the
  error \<^verbatim>\<open>resource.Retry\<close> returned, the variable \<^verbatim>\<open>grant\<close> and the trace.
\<close>

definition findAfterRetry ::
  "Redshift \<Rightarrow> string \<Rightarrow> error option \<times> (SnapshotCopyGrant option \<times> call list) \<Rightarrow>
   ((SnapshotCopyGrant option \<times> error option) \<times> call list) option" where
  "findAfterRetry conn grantName r =
     (case r of
        (err, (grant, tr1)) \<Rightarrow>
          (case (if isResourceTimeoutError err
                 then findAwsRedshiftSnapshotCopyGrant conn grantName None tr1
                 else Some ((grant, err), tr1)) of
             None \<Rightarrow> None
           | Some ((grant2, err2), tr2) \<Rightarrow>
               (case err2 of
                  Some e \<Rightarrow>
                    Some ((None, Some (Errorf ''Error finding snapshot copy grant: '' e)), tr2)
                | None \<Rightarrow> Some ((grant2, None), tr2))))"

definition findAwsRedshiftSnapshotCopyGrantWithRetry ::
  "Redshift \<Rightarrow> string \<Rightarrow> call list \<Rightarrow>
   ((SnapshotCopyGrant option \<times> error option) \<times> call list) option" where
  "findAwsRedshiftSnapshotCopyGrantWithRetry conn grantName tr =
     (case Retry (retryBudget conn tr) (findRetryFunc conn grantName) (None, tr) of
        None \<Rightarrow> None
      | Some r \<Rightarrow> findAfterRetry conn grantName r)"

text \<open>The closure retried by \<^verbatim>\<open>waitForAwsRedshiftSnapshotCopyGrantToBeDeleted\<close>.\<close>

definition waitRetryFunc ::
  "Redshift \<Rightarrow> string \<Rightarrow> SnapshotCopyGrant option \<times> call list \<Rightarrow>
   (RetryError option \<times> (SnapshotCopyGrant option \<times> call list)) option" where
  "waitRetryFunc conn grantName s =
     (case findAwsRedshiftSnapshotCopyGrant conn grantName None (snd s) of
        None \<Rightarrow> None
      | Some ((grant, err), tr') \<Rightarrow>
          if err \<noteq> None \<and> isAWSErr err ErrCodeSnapshotCopyGrantNotFoundFault ''''
          then Some (None, (grant, tr'))
          else
            (case grant of
               Some g \<Rightarrow>
                 Some (RetryableError (ErrorString
                         (''[DEBUG] Grant still exists while expected to be deleted: '' @
                          grant_SnapshotCopyGrantName g)),
                       (grant, tr'))
             | None \<Rightarrow> Some (NonRetryableError err, (grant, tr'))))"

text \<open>The lines of \<^verbatim>\<open>waitForAwsRedshiftSnapshotCopyGrantToBeDeleted\<close> after the retry.\<close>

definition waitAfterRetry ::
  "Redshift \<Rightarrow> string \<Rightarrow> error option \<times> (SnapshotCopyGrant option \<times> call list) \<Rightarrow>
   (error option \<times> call list) option" where
  "waitAfterRetry conn grantName r =
     (case r of
        (err, (grant, tr1)) \<Rightarrow>
          if isResourceTimeoutError err then
            (case findAwsRedshiftSnapshotCopyGrant conn grantName None tr1 of
               None \<Rightarrow> None
             | Some ((grant2, err2), tr2) \<Rightarrow>
                 if isAWSErr err2 ErrCodeSnapshotCopyGrantNotFoundFault '''' then Some (None, tr2)
                 else
                   (case err2 of
                      Some e \<Rightarrow>
                        Some (Some (Errorf ''Error waiting for snapshot copy grant to be deleted: '' e), tr2)
                    | None \<Rightarrow> Some (None, tr2)))
          else
            (case err of
               Some e \<Rightarrow>
                 Some (Some (Errorf ''Error waiting for snapshot copy grant to be deleted: '' e), tr1)
             | None \<Rightarrow> Some (None, tr1)))"

definition waitForAwsRedshiftSnapshotCopyGrantToBeDeleted ::
  "Redshift \<Rightarrow> string \<Rightarrow> call list \<Rightarrow> (error option \<times> call list) option" where
  "waitForAwsRedshiftSnapshotCopyGrantToBeDeleted conn grantName tr =
     (case Retry (retryBudget conn tr) (waitRetryFunc conn grantName) (None, tr) of
        None \<Rightarrow> None
      | Some r \<Rightarrow> waitAfterRetry conn grantName r)"

subsection \<open>The resource data and the provider's client\<close>

text \<open>
  \<^verbatim>\<open>*schema.ResourceData\<close>, restricted to what the file reads and writes: the ID and
  the four attributes of the schema. \<^verbatim>\<open>d.Get\<close> of a string attribute that is not set
  is the empty string. For \<^verbatim>\<open>tags\<close> the data keeps the value of the prior state as
  well, which \<^verbatim>\<open>d.HasChange\<close> and \<^verbatim>\<open>d.GetChange\<close> compare with the current one.
\<close>

record ResourceData =
  rd_Id :: string
  rd_arn :: string
  rd_snapshot_copy_grant_name :: string
  rd_kms_key_id :: string
  rd_tags :: tagmap
  rd_tags_old :: tagmap

text \<open>\<^verbatim>\<open>d.GetOk\<close> of a string attribute: the value, and whether it is set and not empty.\<close>

definition GetOk_kms_key_id :: "ResourceData \<Rightarrow> string \<times> bool" where
  "GetOk_kms_key_id d = (rd_kms_key_id d, rd_kms_key_id d \<noteq> '''')"

definition HasChange_tags :: "ResourceData \<Rightarrow> bool" where
  "HasChange_tags d = (rd_tags_old d \<noteq> rd_tags d)"

definition GetChange_tags :: "ResourceData \<Rightarrow> tagmap \<times> tagmap" where
  "GetChange_tags d = (rd_tags_old d, rd_tags d)"

text \<open>
  \<^verbatim>\<open>d.Set("tags", m)\<close> returns an error, which the source checks; setting a map of
  strings at an attribute of that type does not fail.
\<close>

definition Set_tags :: "ResourceData \<Rightarrow> tagmap \<Rightarrow> error option \<times> ResourceData" where
  "Set_tags d m = (None, d\<lparr>rd_tags := m\<rparr>)"

text \<open>\<^verbatim>\<open>d.Set("kms_key_id", p)\<close> with a string pointer: \<^verbatim>\<open>nil\<close> sets the empty string.\<close>

definition Set_kms_key_id :: "ResourceData \<Rightarrow> string option \<Rightarrow> ResourceData" where
  "Set_kms_key_id d p = d\<lparr>rd_kms_key_id := (case p of None \<Rightarrow> '''' | Some v \<Rightarrow> v)\<rparr>"

text \<open>
  The functions of the package \<^verbatim>\<open>keyvaluetags\<close> the file calls, which are not in this
  file, as parameters: from the attribute's map to the tags of a request
  (\<^verbatim>\<open>New(m).IgnoreAws().RedshiftTags()\<close>) and from the tags of a response to the
  attribute's map (\<^verbatim>\<open>RedshiftKeyValueTags(ts).IgnoreAws().Map()\<close>).
\<close>

record keyvaluetags =
  toRedshiftTags :: "tagmap \<Rightarrow> RedshiftTag list"
  fromRedshiftTags :: "RedshiftTag list \<Rightarrow> tagmap"

text \<open>\<^verbatim>\<open>*AWSClient\<close>, the provider's \<^verbatim>\<open>meta\<close>.\<close>

record AWSClient =
  redshiftconn :: Redshift
  partition :: string
  region :: string
  accountid :: string

text \<open>\<^verbatim>\<open>arn.ARN{...}.String()\<close> of the SDK: the six parts joined by colons.\<close>

definition ARN_String :: "string \<Rightarrow> string \<Rightarrow> string \<Rightarrow> string \<Rightarrow> string \<Rightarrow> string" where
  "ARN_String part service reg account res =
     ''arn:'' @ part @ '':'' @ service @ '':'' @ reg @ '':'' @ account @ '':'' @ res"

subsection \<open>The five operations of the resource\<close>

definition resourceAwsRedshiftSnapshotCopyGrantRead ::
  "keyvaluetags \<Rightarrow> AWSClient \<Rightarrow> ResourceData \<Rightarrow> call list \<Rightarrow>
   ((error option \<times> ResourceData) \<times> call list) option" where
  "resourceAwsRedshiftSnapshotCopyGrantRead kv meta d tr =
     (let conn = redshiftconn meta; grantName = rd_Id d in
      case findAwsRedshiftSnapshotCopyGrantWithRetry conn grantName tr of
        None \<Rightarrow> None
      | Some ((grant, err), tr') \<Rightarrow>
          (case err of
             Some e \<Rightarrow> Some ((Some e, d), tr')
           | None \<Rightarrow>
               (case grant of
                  None \<Rightarrow> Some ((None, d\<lparr>rd_Id := ''''\<rparr>), tr')
                | Some g \<Rightarrow>
                    (let arn = ARN_String (partition meta) ''redshift'' (region meta) (accountid meta)
                                 (''snapshotcopygrant:'' @ grantName);
                         d1 = d\<lparr>rd_arn := arn\<rparr>;
                         d2 = Set_kms_key_id d1 (grant_KmsKeyId g);
                         d3 = d2\<lparr>rd_snapshot_copy_grant_name := grant_SnapshotCopyGrantName g\<rparr>
                     in case Set_tags d3 (fromRedshiftTags kv (grant_Tags g)) of
                          (Some e, d4) \<Rightarrow> Some ((Some (Errorf ''error setting tags: '' e), d4), tr')
                        | (None, d4) \<Rightarrow> Some ((None, d4), tr')))))"

text \<open>The request \<^verbatim>\<open>resourceAwsRedshiftSnapshotCopyGrantCreate\<close> builds.\<close>

definition createInput :: "keyvaluetags \<Rightarrow> ResourceData \<Rightarrow> CreateSnapshotCopyGrantInput" where
  "createInput kv d =
     (let grantName = rd_snapshot_copy_grant_name d;
          input = \<lparr>csi_SnapshotCopyGrantName = Some grantName, csi_KmsKeyId = None, csi_Tags = []\<rparr>;
          input1 = (case GetOk_kms_key_id d of
                      (v, True) \<Rightarrow> input\<lparr>csi_KmsKeyId := Some v\<rparr>
                    | (v, False) \<Rightarrow> input)
      in input1\<lparr>csi_Tags := toRedshiftTags kv (rd_tags d)\<rparr>)"

definition resourceAwsRedshiftSnapshotCopyGrantCreate ::
  "keyvaluetags \<Rightarrow> AWSClient \<Rightarrow> ResourceData \<Rightarrow> call list \<Rightarrow>
   ((error option \<times> ResourceData) \<times> call list) option" where
  "resourceAwsRedshiftSnapshotCopyGrantCreate kv meta d tr =
     (let conn = redshiftconn meta; grantName = rd_snapshot_copy_grant_name d in
      case CreateSnapshotCopyGrant conn (createInput kv d) tr of
        (Inl err, tr') \<Rightarrow>
          Some ((Some (Errorf (''error creating Redshift Snapshot Copy Grant ('' @ grantName @ ''): '') err),
                 d), tr')
      | (Inr out, tr') \<Rightarrow>
          resourceAwsRedshiftSnapshotCopyGrantRead kv meta (d\<lparr>rd_Id := grantName\<rparr>) tr')"

definition resourceAwsRedshiftSnapshotCopyGrantUpdate ::
  "keyvaluetags \<Rightarrow> AWSClient \<Rightarrow> ResourceData \<Rightarrow> call list \<Rightarrow>
   ((error option \<times> ResourceData) \<times> call list) option" where
  "resourceAwsRedshiftSnapshotCopyGrantUpdate kv meta d tr =
     (let conn = redshiftconn meta in
      if HasChange_tags d then
        (case GetChange_tags d of
           (o', n) \<Rightarrow>
             (case RedshiftUpdateTags conn (rd_arn d) o' n tr of
                (Some err, tr') \<Rightarrow>
                  Some ((Some (Errorf (''error updating Redshift Snapshot Copy Grant ('' @ rd_arn d @
                                       '') tags: '') err), d), tr')
              | (None, tr') \<Rightarrow> resourceAwsRedshiftSnapshotCopyGrantRead kv meta d tr'))
      else resourceAwsRedshiftSnapshotCopyGrantRead kv meta d tr)"

definition resourceAwsRedshiftSnapshotCopyGrantDelete ::
  "AWSClient \<Rightarrow> ResourceData \<Rightarrow> call list \<Rightarrow> (error option \<times> call list) option" where
  "resourceAwsRedshiftSnapshotCopyGrantDelete meta d tr =
     (let conn = redshiftconn meta; grantName = rd_Id d;
          deleteInput = \<lparr>dli_SnapshotCopyGrantName = Some grantName\<rparr>
      in case DeleteSnapshotCopyGrant conn deleteInput tr of
           (Some err, tr') \<Rightarrow>
             if isAWSErr (Some err) ErrCodeSnapshotCopyGrantNotFoundFault '''' then Some (None, tr')
             else Some (Some err, tr')
         | (None, tr') \<Rightarrow> waitForAwsRedshiftSnapshotCopyGrantToBeDeleted conn grantName tr')"

definition resourceAwsRedshiftSnapshotCopyGrantExists ::
  "AWSClient \<Rightarrow> ResourceData \<Rightarrow> call list \<Rightarrow> ((bool \<times> error option) \<times> call list) option" where
  "resourceAwsRedshiftSnapshotCopyGrantExists meta d tr =
     (let conn = redshiftconn meta; grantName = rd_Id d in
      case findAwsRedshiftSnapshotCopyGrantWithRetry conn grantName tr of
        None \<Rightarrow> None
      | Some ((grant, err), tr') \<Rightarrow>
          (case err of
             Some e \<Rightarrow> Some ((False, err), tr')
           | None \<Rightarrow>
               (case grant of
                  Some g \<Rightarrow> Some ((True, err), tr')
                | None \<Rightarrow> Some ((False, None), tr'))))"

subsection \<open>Notions the properties are stated with\<close>

text \<open>The marker the service returns with an answer.\<close>

fun nextMarker :: "awserr + DescribeSnapshotCopyGrantsOutput \<Rightarrow> string option" where
  "nextMarker (Inl e) = None"
| "nextMarker (Inr out) = dso_Marker out"

fun pageGrants :: "awserr + DescribeSnapshotCopyGrantsOutput \<Rightarrow> SnapshotCopyGrant list" where
  "pageGrants (Inl e) = []"
| "pageGrants (Inr out) = dso_SnapshotCopyGrants out"

text \<open>
  The requests of a lookup that gets the answers \<open>rs\<close> one after the other: the first
  with the marker the lookup is given, each later one with the marker of the answer
  before it.
\<close>

fun pageCalls :: "string \<Rightarrow> string option \<Rightarrow> (awserr + DescribeSnapshotCopyGrantsOutput) list \<Rightarrow> call list" where
  "pageCalls grantName marker [] = []"
| "pageCalls grantName marker (r # rs) =
     DescribeCall (describeInput grantName marker) r # pageCalls grantName (nextMarker r) rs"

text \<open>The service gives the answers \<open>rs\<close> to these requests, made after the calls \<open>tr\<close>.\<close>

fun answers ::
  "Redshift \<Rightarrow> string \<Rightarrow> string option \<Rightarrow> call list \<Rightarrow>
   (awserr + DescribeSnapshotCopyGrantsOutput) list \<Rightarrow> bool" where
  "answers conn grantName marker tr [] = True"
| "answers conn grantName marker tr (r # rs) =
     (describeResp conn tr (describeInput grantName marker) = r \<and>
      answers conn grantName (nextMarker r)
        (tr @ [DescribeCall (describeInput grantName marker) r]) rs)"

text \<open>An answer after which the lookup goes on: a page without the grant, with a marker.\<close>

fun continues :: "string \<Rightarrow> awserr + DescribeSnapshotCopyGrantsOutput \<Rightarrow> bool" where
  "continues grantName (Inl e) = False"
| "continues grantName (Inr out) =
     (List.find (\<lambda>g. grant_SnapshotCopyGrantName g = grantName) (dso_SnapshotCopyGrants out) = None \<and>
      dso_Marker out \<noteq> None)"

text \<open>The marker of the request that got the last of the answers \<open>rs\<close>.\<close>

fun lastMarker :: "string option \<Rightarrow> (awserr + DescribeSnapshotCopyGrantsOutput) list \<Rightarrow> string option" where
  "lastMarker marker [] = marker"
| "lastMarker marker [r] = marker"
| "lastMarker marker (r # r' # rs) = lastMarker (nextMarker r) (r' # rs)"

text \<open>
  What the claim says the lookup returns from the answers \<open>rs\<close>: the error of the last
  answer, or the first grant of that name on the pages, or a not-found error.
\<close>

definition lookupOutcome ::
  "string \<Rightarrow> string option \<Rightarrow> (awserr + DescribeSnapshotCopyGrantsOutput) list \<Rightarrow>
   SnapshotCopyGrant option \<times> error option" where
  "lookupOutcome grantName marker rs =
     (case last rs of
        Inl (c, m) \<Rightarrow> (None, Some (AWSError c m))
      | Inr out \<Rightarrow>
          (case List.find (\<lambda>g. grant_SnapshotCopyGrantName g = grantName) (concat (map pageGrants rs)) of
             Some g \<Rightarrow> (Some g, None)
           | None \<Rightarrow>
               (None, Some (grantNotFound grantName (describeInput grantName (lastMarker marker rs))))))"

text \<open>The request of a call, when it is a \<^verbatim>\<open>DescribeSnapshotCopyGrants\<close>.\<close>

fun describeRequest :: "call \<Rightarrow> DescribeSnapshotCopyGrantsInput option" where
  "describeRequest (DescribeCall input r) = Some input"
| "describeRequest _ = None"

fun isDescribeCall :: "call \<Rightarrow> bool" where
  "isDescribeCall (DescribeCall input r) = True"
| "isDescribeCall _ = False"

fun isUpdateTagsCall :: "call \<Rightarrow> bool" where
  "isUpdateTagsCall (UpdateTagsCall identifier oldTags newTags r) = True"
| "isUpdateTagsCall _ = False"

text \<open>
  The lookups by name in a trace: a lookup starts with the one request that has no
  marker, and every later page is asked for with a marker.
\<close>

fun startsLookup :: "call \<Rightarrow> bool" where
  "startsLookup (DescribeCall input r) = (dsi_Marker input = None)"
| "startsLookup _ = False"

definition lookups :: "call list \<Rightarrow> nat" where
  "lookups tr = length (filter startsLookup tr)"

text \<open>The results a lookup can have.\<close>

definition lookupResult :: "string \<Rightarrow> SnapshotCopyGrant option \<times> error option \<Rightarrow> bool" where
  "lookupResult grantName r =
     (case r of
        (Some x, None) \<Rightarrow> grant_SnapshotCopyGrantName x = grantName
      | (None, Some (AWSError c m)) \<Rightarrow> True
      | (None, Some (NotFoundError m i)) \<Rightarrow> True
      | _ \<Rightarrow> False)"

text \<open>
  How the closure of \<^verbatim>\<open>findAwsRedshiftSnapshotCopyGrantWithRetry\<close> classifies the result
  of its lookup, and how the closure of \<^verbatim>\<open>waitForAwsRedshiftSnapshotCopyGrantToBeDeleted\<close>
  does.
\<close>

definition findClass :: "SnapshotCopyGrant option \<Rightarrow> error option \<Rightarrow> RetryError option" where
  "findClass grant err =
     (case err of
        Some serr \<Rightarrow> if isNotFoundError serr then RetryableError serr else NonRetryableError err
      | None \<Rightarrow> None)"




text \<open>
  The two helpers from a state of their retry: \<open>resultErr\<close> is the error of the last run
  (none before the first) and \<open>n\<close> the number of runs that still finish before the
  timeout.
\<close>

definition findWithRetryFrom ::
  "error option \<Rightarrow> nat \<Rightarrow> Redshift \<Rightarrow> string \<Rightarrow> SnapshotCopyGrant option \<times> call list \<Rightarrow>
   ((SnapshotCopyGrant option \<times> error option) \<times> call list) option" where
  "findWithRetryFrom resultErr n conn grantName s =
     (case RetryFrom resultErr n (findRetryFunc conn grantName) s of
        None \<Rightarrow> None
      | Some r \<Rightarrow> findAfterRetry conn grantName r)"


subsection \<open>Services the properties are tried on\<close>

definition exampleGrant :: "string \<Rightarrow> SnapshotCopyGrant" where
  "exampleGrant grantName =
     \<lparr>grant_KmsKeyId = Some ''key-1'', grant_SnapshotCopyGrantName = grantName,
      grant_Tags = [(''env'', ''test'')]\<rparr>"

text \<open>A service with no grant that accepts every request.\<close>

definition emptyService :: Redshift where
  "emptyService =
     \<lparr>describeResp = (\<lambda>tr input. Inr \<lparr>dso_Marker = None, dso_SnapshotCopyGrants = []\<rparr>),
      createResp = (\<lambda>tr input. Inr \<lparr>cso_SnapshotCopyGrant = exampleGrant ''grant-a''\<rparr>),
      deleteResp = (\<lambda>tr input. None),
      updateTagsResp = (\<lambda>tr identifier oldTags newTags. None),
      retryBudget = (\<lambda>tr. 2)\<rparr>"

text \<open>A service that lists one grant on every page it is asked for.\<close>

definition oneGrantService :: Redshift where
  "oneGrantService =
     emptyService\<lparr>describeResp :=
       (\<lambda>tr input. Inr \<lparr>dso_Marker = None, dso_SnapshotCopyGrants = [exampleGrant ''grant-a'']\<rparr>)\<rparr>"

text \<open>A service with two pages: the grant \<^verbatim>\<open>grant-b\<close> is on the second.\<close>

definition twoPageService :: Redshift where
  "twoPageService =
     emptyService\<lparr>describeResp :=
       (\<lambda>tr input.
          if dsi_Marker input = Some ''page-2''
          then Inr \<lparr>dso_Marker = None,
                    dso_SnapshotCopyGrants = [exampleGrant ''grant-c'', exampleGrant ''grant-b'']\<rparr>
          else Inr \<lparr>dso_Marker = Some ''page-2'',
                    dso_SnapshotCopyGrants = [exampleGrant ''grant-a'']\<rparr>)\<rparr>"


text \<open>A service whose every request fails with the given error.\<close>

definition failingService :: "awserr \<Rightarrow> Redshift" where
  "failingService e =
     \<lparr>describeResp = (\<lambda>tr input. Inl e),
      createResp = (\<lambda>tr input. Inl e),
      deleteResp = (\<lambda>tr input. Some e),
      updateTagsResp = (\<lambda>tr identifier oldTags newTags. Some (AWSError (fst e) (snd e))),
      retryBudget = (\<lambda>tr. 2)\<rparr>"

definition exampleTags :: keyvaluetags where
  "exampleTags = \<lparr>toRedshiftTags = (\<lambda>m. m), fromRedshiftTags = (\<lambda>ts. ts)\<rparr>"

definition exampleClient :: "Redshift \<Rightarrow> AWSClient" where
  "exampleClient conn =
     \<lparr>redshiftconn = conn, partition = ''aws'', region = ''us-east-1'', accountid = ''123456789012''\<rparr>"

definition exampleData :: ResourceData where
  "exampleData =
     \<lparr>rd_Id = ''grant-a'', rd_arn = '''', rd_snapshot_copy_grant_name = ''grant-a'',
      rd_kms_key_id = '''', rd_tags = [(''env'', ''test'')], rd_tags_old = []\<rparr>"

text \<open>A service that lists one grant and refuses every change of tags.\<close>

definition tagFailService :: Redshift where
  "tagFailService =
     oneGrantService\<lparr>updateTagsResp :=
       (\<lambda>tr identifier oldTags newTags. Some (ErrorString ''tagging failed''))\<rparr>"

text \<open>The data of a grant that is in the state, with a tag added in the configuration.\<close>

definition storedData :: ResourceData where
  "storedData =
     \<lparr>rd_Id = ''grant-a'',
      rd_arn = ''arn:aws:redshift:us-east-1:123456789012:snapshotcopygrant:grant-a'',
      rd_snapshot_copy_grant_name = ''grant-a'', rd_kms_key_id = ''key-1'',
      rd_tags = [(''env'', ''test'')], rd_tags_old = []\<rparr>"

text \<open>
  A service that lists one grant and is so slow that no run of a retried closure ends
  before the timeout.
\<close>

definition slowGrantService :: Redshift where
  "slowGrantService = oneGrantService\<lparr>retryBudget := (\<lambda>tr. 0)\<rparr>"

text \<open>
  A service that lists the grant from its second answer on; one run of a retried closure
  ends before the timeout.
\<close>

definition lateGrantService :: Redshift where
  "lateGrantService =
     emptyService\<lparr>describeResp :=
       (\<lambda>tr input.
          if tr = [] then Inr \<lparr>dso_Marker = None, dso_SnapshotCopyGrants = []\<rparr>
          else Inr \<lparr>dso_Marker = None, dso_SnapshotCopyGrants = [exampleGrant ''grant-a'']\<rparr>),
       retryBudget := (\<lambda>tr. 1)\<rparr>"

section \<open>Properties\<close>

subsection \<open>The lookup by name\<close>

lemma lookupResult_simps [simp]:
  "lookupResult n (Some x, None) = (grant_SnapshotCopyGrantName x = n)"
  "lookupResult n (None, Some (AWSError c m))"
  "lookupResult n (None, Some (grantNotFound n i))"
  "\<not> lookupResult n (None, None)"
  "\<not> lookupResult n (Some x, Some e)"
  "\<not> lookupResult n (g, Some TimeoutError)"
  by (simp_all add: lookupResult_def grantNotFound_def split: option.splits)

lemma getGrant_find:
  "getAwsRedshiftSnapshotCopyGrant gs n = List.find (\<lambda>g. grant_SnapshotCopyGrantName g = n) gs"
  by (induction gs) auto

lemma getGrant_name:
  "getAwsRedshiftSnapshotCopyGrant gs n = Some x \<Longrightarrow> grant_SnapshotCopyGrantName x = n"
  by (induction gs) (auto split: if_splits)

lemma find_lookupResult:
  assumes "findAwsRedshiftSnapshotCopyGrant conn grantName marker tr = Some y"
  shows "lookupResult grantName (fst y)"
  by (rule findAwsRedshiftSnapshotCopyGrant.raw_induct
        [where P = "\<lambda>conn grantName marker tr y. lookupResult grantName (fst y)", OF _ assms])
     (auto simp: Let_def DescribeSnapshotCopyGrants_def
           dest: getGrant_name split: sum.splits option.splits prod.splits)

lemma lookups_simps [simp]:
  "lookups [] = 0"
  "lookups (xs @ ys) = lookups xs + lookups ys"
  "lookups (DescribeCall i r # xs) = (if dsi_Marker i = None then 1 else 0) + lookups xs"
  by (simp_all add: lookups_def)

lemma describeInput_simps [simp]:
  "dsi_Marker (describeInput n m) = m"
  "dsi_MaxRecords (describeInput n m) = Some 100"
  "dsi_SnapshotCopyGrantName (describeInput n m) = (if m = None then Some n else None)"
  by (simp_all add: describeInput_def Let_def split: option.splits)

lemma find_trace:
  assumes "findAwsRedshiftSnapshotCopyGrant conn grantName marker tr = Some y"
  shows "\<exists>resp rest. snd y = tr @ DescribeCall (describeInput grantName marker) resp # rest \<and>
           (\<forall>c \<in> set rest. isDescribeCall c) \<and> lookups rest = 0"
  by (rule findAwsRedshiftSnapshotCopyGrant.raw_induct
        [where P = "\<lambda>conn grantName marker tr y.
            \<exists>resp rest. snd y = tr @ DescribeCall (describeInput grantName marker) resp # rest \<and>
           (\<forall>c \<in> set rest. isDescribeCall c) \<and> lookups rest = 0", OF _ assms])
     (fastforce simp: Let_def DescribeSnapshotCopyGrants_def 
           split: sum.splits option.splits prod.splits)

lemma find_append_list:
  "List.find P (xs @ ys) = (case List.find P xs of None \<Rightarrow> List.find P ys | Some x \<Rightarrow> Some x)"
  by (induction xs) auto

lemma find_continue:
  assumes "describeResp conn tr (describeInput n m) = r" and "continues n r"
  shows "findAwsRedshiftSnapshotCopyGrant conn n m tr =
         findAwsRedshiftSnapshotCopyGrant conn n (nextMarker r)
           (tr @ [DescribeCall (describeInput n m) r])"
  using assms
  by (cases r)
     (auto simp: findAwsRedshiftSnapshotCopyGrant.simps[of conn n m tr] Let_def
          DescribeSnapshotCopyGrants_def getGrant_find split: option.splits)

lemma find_stop:
  assumes "describeResp conn tr (describeInput n m) = r" and "\<not> continues n r"
  shows "findAwsRedshiftSnapshotCopyGrant conn n m tr =
         Some ((case r of
                  Inl (c, msg) \<Rightarrow> (None, Some (AWSError c msg))
                | Inr out \<Rightarrow>
                   (case List.find (\<lambda>g. grant_SnapshotCopyGrantName g = n) (dso_SnapshotCopyGrants out) of
                      Some g \<Rightarrow> (Some g, None)
                    | None \<Rightarrow> (None, Some (grantNotFound n (describeInput n m))))),
               tr @ [DescribeCall (describeInput n m) r])"
  using assms
  by (cases r)
     (auto simp: findAwsRedshiftSnapshotCopyGrant.simps[of conn n m tr] Let_def
          DescribeSnapshotCopyGrants_def getGrant_find split: option.splits)

lemma find_pages:
  assumes "answers conn n m tr rs" and "rs \<noteq> []"
    and "\<forall>r \<in> set (butlast rs). continues n r" and "\<not> continues n (last rs)"
  shows "findAwsRedshiftSnapshotCopyGrant conn n m tr =
         Some (lookupOutcome n m rs, tr @ pageCalls n m rs)"
  using assms
proof (induction rs arbitrary: m tr)
  case Nil
  then show ?case by simp
next
  case (Cons r rs)
  show ?case
  proof (cases "rs = []")
    case True
    with Cons.prems have r: "describeResp conn tr (describeInput n m) = r" "\<not> continues n r"
      by simp_all
    show ?thesis
      using True find_stop[OF r]
      by (cases r) (auto simp: lookupOutcome_def split: option.splits)
  next
    case False
    then obtain r' rs' where rs: "rs = r' # rs'" by (cases rs) auto
    from Cons.prems False have r: "describeResp conn tr (describeInput n m) = r" "continues n r"
      by simp_all
    from Cons.prems False
    have ih: "findAwsRedshiftSnapshotCopyGrant conn n (nextMarker r)
                (tr @ [DescribeCall (describeInput n m) r]) =
              Some (lookupOutcome n (nextMarker r) rs,
                    (tr @ [DescribeCall (describeInput n m) r]) @ pageCalls n (nextMarker r) rs)"
      by (intro Cons.IH) simp_all
    from r(2) obtain out where out: "r = Inr out"
      and nf: "List.find (\<lambda>g. grant_SnapshotCopyGrantName g = n) (dso_SnapshotCopyGrants out) = None"
      by (cases r) auto
    have a: "last (r # rs) = last rs"
      using False by simp
    have b: "List.find (\<lambda>g. grant_SnapshotCopyGrantName g = n) (concat (map pageGrants (r # rs))) =
             List.find (\<lambda>g. grant_SnapshotCopyGrantName g = n) (concat (map pageGrants rs))"
      using nf out by (simp add: find_append_list)
    have c: "lastMarker m (r # rs) = lastMarker (nextMarker r) rs"
      using rs by simp
    have "lookupOutcome n (nextMarker r) rs = lookupOutcome n m (r # rs)"
      by (simp only: lookupOutcome_def a b c)
    then show ?thesis
      using find_continue[OF r] ih by simp
  qed
qed


lemma pageCalls_nth:
  "i < length rs \<Longrightarrow>
   pageCalls n m rs ! i =
     DescribeCall (describeInput n (if i = 0 then m else nextMarker (rs ! (i - 1)))) (rs ! i)"
proof (induction rs arbitrary: m i)
  case Nil
  then show ?case by simp
next
  case (Cons r rs)
  show ?case
  proof (cases i)
    case 0
    then show ?thesis by simp
  next
    case (Suc j)
    with Cons.prems have "j < length rs" by simp
    from Cons.IH[OF this, of "nextMarker r"] Suc show ?thesis
      by (cases j) simp_all
  qed
qed

lemma continues_marker: "continues n r \<Longrightarrow> nextMarker r \<noteq> None"
  by (cases r) auto

text \<open>
  Claim C1. Let the service give the answers \<open>rs\<close> to a lookup that starts without a
  marker: every answer but the last is a page without the grant and with a marker, and the
  last is an error, a page with the grant, or a page without a marker. Then the lookup
  returns, with the first grant of the requested name on the pages, a not-found error when
  no page has one, or the error of the last answer as it is; and every request asks for at
  most 100 records, the first by name and each later one by the marker of the page before.
\<close>

theorem find_follows_markers:
  assumes "answers conn grantName None tr rs" and "rs \<noteq> []"
    and "\<forall>r \<in> set (butlast rs). continues grantName r"
    and "\<not> continues grantName (last rs)"
  shows "findAwsRedshiftSnapshotCopyGrant conn grantName None tr =
           Some (lookupOutcome grantName None rs, tr @ pageCalls grantName None rs) \<and>
         (\<forall>i < length rs. \<exists>q.
            describeRequest (pageCalls grantName None rs ! i) = Some q \<and>
            dsi_MaxRecords q = Some 100 \<and>
            (if i = 0 then dsi_SnapshotCopyGrantName q = Some grantName \<and> dsi_Marker q = None
             else dsi_SnapshotCopyGrantName q = None \<and> dsi_Marker q = nextMarker (rs ! (i - 1)) \<and>
                  dsi_Marker q \<noteq> None))"
proof (intro conjI allI impI)
  show "findAwsRedshiftSnapshotCopyGrant conn grantName None tr =
           Some (lookupOutcome grantName None rs, tr @ pageCalls grantName None rs)"
    using assms by (rule find_pages)
next
  fix i assume i: "i < length rs"
  show "\<exists>q. describeRequest (pageCalls grantName None rs ! i) = Some q \<and>
            dsi_MaxRecords q = Some 100 \<and>
            (if i = 0 then dsi_SnapshotCopyGrantName q = Some grantName \<and> dsi_Marker q = None
             else dsi_SnapshotCopyGrantName q = None \<and> dsi_Marker q = nextMarker (rs ! (i - 1)) \<and>
                  dsi_Marker q \<noteq> None)"
  proof (cases "i = 0")
    case True
    then show ?thesis using i by (simp add: pageCalls_nth)
  next
    case False
    with i have "i - 1 < length (butlast rs)" by simp
    then have "rs ! (i - 1) \<in> set (butlast rs)"
      by (metis nth_butlast nth_mem)
    with assms(3) have "nextMarker (rs ! (i - 1)) \<noteq> None"
      using continues_marker by blast
    then show ?thesis using i False by (auto simp: pageCalls_nth)
  qed
qed

theorem find_follows_markers_witness:
  "findAwsRedshiftSnapshotCopyGrant twoPageService ''grant-b'' None [] =
     Some ((Some (exampleGrant ''grant-b''), None),
           [DescribeCall
              \<lparr>dsi_MaxRecords = Some 100, dsi_Marker = None,
                dsi_SnapshotCopyGrantName = Some ''grant-b''\<rparr>
              (Inr \<lparr>dso_Marker = Some ''page-2'',
                     dso_SnapshotCopyGrants = [exampleGrant ''grant-a'']\<rparr>),
            DescribeCall
              \<lparr>dsi_MaxRecords = Some 100, dsi_Marker = Some ''page-2'',
                dsi_SnapshotCopyGrantName = None\<rparr>
              (Inr \<lparr>dso_Marker = None,
                     dso_SnapshotCopyGrants = [exampleGrant ''grant-c'', exampleGrant ''grant-b'']\<rparr>)])"
  using find_follows_markers
    [of twoPageService "''grant-b''" "[]"
        "[Inr \<lparr>dso_Marker = Some ''page-2'', dso_SnapshotCopyGrants = [exampleGrant ''grant-a'']\<rparr>,
          Inr \<lparr>dso_Marker = None,
               dso_SnapshotCopyGrants = [exampleGrant ''grant-c'', exampleGrant ''grant-b'']\<rparr>]"]
  by (simp add: twoPageService_def emptyService_def exampleGrant_def lookupOutcome_def
        describeInput_def)

subsection \<open>The retry loops\<close>

lemma isResourceTimeoutError_iff: "isResourceTimeoutError err = (err = Some TimeoutError)"
proof (cases err)
  case None
  then show ?thesis by simp
next
  case (Some e)
  then show ?thesis by (cases e) simp_all
qed

lemma lookupResult_cases:
  assumes "lookupResult n (g, e)"
  obtains (found) x where "g = Some x" "e = None" "grant_SnapshotCopyGrantName x = n"
  | (awserr) c m where "g = None" "e = Some (AWSError c m)"
  | (notfound) m i where "g = None" "e = Some (NotFoundError m i)"
  using assms unfolding lookupResult_def
  by (auto split: option.splits error.splits)

text \<open>A retried closure that makes one lookup and classifies its result.\<close>

lemma RetryFrom_lookup_trace:
  assumes f: "\<And>s. f s = (case findAwsRedshiftSnapshotCopyGrant conn n None (snd s) of
                             None \<Rightarrow> None
                           | Some ((g', e), tr') \<Rightarrow> Some (cls g' e, (g', tr')))"
    and cls: "\<And>g' e. lookupResult n (g', e) \<Longrightarrow>
                cls g' e \<noteq> Some (NonRetryable TimeoutError) \<and> cls g' e \<noteq> Some (Retryable TimeoutError)"
  shows "prev \<noteq> Some TimeoutError \<Longrightarrow> RetryFrom prev k f (g, tr) = Some (err, (g1, tr1)) \<Longrightarrow>
         \<exists>ext. tr1 = tr @ ext \<and> (\<forall>c \<in> set ext. isDescribeCall c) \<and> lookups ext \<le> k \<and>
               (if k = 0
                then ext = [] \<and> err = (case prev of None \<Rightarrow> Some TimeoutError | Some e \<Rightarrow> Some e)
                else (\<exists>resp rest. ext = DescribeCall (describeInput n None) resp # rest) \<and>
                     err \<noteq> Some TimeoutError)"
proof (induction k arbitrary: prev g tr)
  case 0
  then show ?case by simp
next
  case (Suc k)
  from Suc.prems(2) obtain y where y: "findAwsRedshiftSnapshotCopyGrant conn n None tr = Some y"
    by (cases "findAwsRedshiftSnapshotCopyGrant conn n None tr") (simp_all add: f)
  obtain g' e tr' where yy: "y = ((g', e), tr')" by (cases y) auto
  from find_trace[OF y] yy obtain resp rest where
    tr': "tr' = tr @ DescribeCall (describeInput n None) resp # rest"
    and rest: "\<forall>c \<in> set rest. isDescribeCall c" "lookups rest = 0"
    by auto
  from find_lookupResult[OF y] yy have lr: "lookupResult n (g', e)" by simp
  have fs: "f (g, tr) = Some (cls g' e, (g', tr'))"
    using y yy by (simp add: f)
  show ?case
  proof (cases "cls g' e")
    case None
    with Suc.prems(2) fs have "err = None" "tr1 = tr'" by simp_all
    then show ?thesis using tr' rest by simp
  next
    case (Some re)
    show ?thesis
    proof (cases re)
      case (Retryable e')
      have e': "Some e' \<noteq> Some TimeoutError"
        using cls[OF lr] Some Retryable by auto
      from Suc.prems(2) fs Some Retryable
      have "RetryFrom (Some e') k f (g', tr') = Some (err, (g1, tr1))" by simp
      from Suc.IH[OF e' this] obtain ext where
        ext: "tr1 = tr' @ ext" "\<forall>c \<in> set ext. isDescribeCall c" "lookups ext \<le> k"
             "if k = 0 then ext = [] \<and> err = Some e'
              else (\<exists>resp rest. ext = DescribeCall (describeInput n None) resp # rest) \<and>
                   err \<noteq> Some TimeoutError"
        by auto
      have nt: "err \<noteq> Some TimeoutError"
        using ext(4) e' by (cases "k = 0") auto
      have "tr1 = tr @ (DescribeCall (describeInput n None) resp # rest @ ext)"
        using ext(1) tr' by simp
      moreover have "\<forall>c \<in> set (DescribeCall (describeInput n None) resp # rest @ ext). isDescribeCall c"
        using rest ext(2) by auto
      moreover have "lookups (DescribeCall (describeInput n None) resp # rest @ ext) = Suc (lookups ext)"
        using rest by simp
      ultimately show ?thesis using ext(3) nt
        by (intro exI[of _ "DescribeCall (describeInput n None) resp # rest @ ext"]) auto
    next
      case (NonRetryable e')
      with Suc.prems(2) fs Some have "err = Some e'" "tr1 = tr'" by simp_all
      moreover have "e' \<noteq> TimeoutError" using cls[OF lr] Some NonRetryable by auto
      ultimately show ?thesis using tr' rest by simp
    qed
  qed
qed


lemma findRetryFunc_class:
  "findRetryFunc conn n s = (case findAwsRedshiftSnapshotCopyGrant conn n None (snd s) of
                             None \<Rightarrow> None
                           | Some ((g', e), tr') \<Rightarrow> Some (findClass g' e, (g', tr')))"
  by (simp add: findRetryFunc_def findClass_def split: option.splits)

lemma findClass_no_timeout:
  "lookupResult n (g', e) \<Longrightarrow>
   findClass g' e \<noteq> Some (NonRetryable TimeoutError) \<and> findClass g' e \<noteq> Some (Retryable TimeoutError)"
  by (auto simp: findClass_def RetryableError_def NonRetryableError_def
           split: option.splits if_splits)



lemma RetryFrom_find_trace:
  assumes "prev \<noteq> Some TimeoutError"
    and "RetryFrom prev k (findRetryFunc conn n) (g, tr) = Some (err, (g1, tr1))"
  shows "\<exists>ext. tr1 = tr @ ext \<and> (\<forall>c \<in> set ext. isDescribeCall c) \<and> lookups ext \<le> k \<and>
               (if k = 0
                then ext = [] \<and> err = (case prev of None \<Rightarrow> Some TimeoutError | Some e \<Rightarrow> Some e)
                else (\<exists>resp rest. ext = DescribeCall (describeInput n None) resp # rest) \<and>
                     err \<noteq> Some TimeoutError)"
proof (rule RetryFrom_lookup_trace[where cls = findClass and conn = conn and n = n, OF _ _ assms])
  show "\<And>s. findRetryFunc conn n s =
          (case findAwsRedshiftSnapshotCopyGrant conn n None (snd s) of
             None \<Rightarrow> None
           | Some ((g', e), tr') \<Rightarrow> Some (findClass g' e, (g', tr')))"
    by (rule findRetryFunc_class)
  show "\<And>g' e. lookupResult n (g', e) \<Longrightarrow>
          findClass g' e \<noteq> Some (NonRetryable TimeoutError) \<and>
          findClass g' e \<noteq> Some (Retryable TimeoutError)"
    by (rule findClass_no_timeout)
qed


text \<open>The helpers are their loop from its first state.\<close>

lemma findWithRetry_from:
  "findAwsRedshiftSnapshotCopyGrantWithRetry conn n tr =
     findWithRetryFrom None (retryBudget conn tr) conn n (None, tr)"
  by (simp add: findAwsRedshiftSnapshotCopyGrantWithRetry_def findWithRetryFrom_def Retry_def)


text \<open>What the retry loop of the find helper leaves behind.\<close>

lemma RetryFrom_find_result:
  "RetryFrom prev k (findRetryFunc conn n) (g, tr) = Some (err, (g1, tr1)) \<Longrightarrow>
   (err = None \<longrightarrow> (\<exists>x. g1 = Some x \<and> grant_SnapshotCopyGrantName x = n))"
proof (induction k arbitrary: prev g tr)
  case 0
  then show ?case by (auto split: option.splits)
next
  case (Suc k)
  from Suc.prems obtain y where y: "findAwsRedshiftSnapshotCopyGrant conn n None tr = Some y"
    by (cases "findAwsRedshiftSnapshotCopyGrant conn n None tr") (simp_all add: findRetryFunc_def)
  obtain g' e tr' where yy: "y = ((g', e), tr')" by (cases y) auto
  from find_lookupResult[OF y] yy have lr: "lookupResult n (g', e)" by simp
  have fs: "findRetryFunc conn n (g, tr) = Some (findClass g' e, (g', tr'))"
    using y yy by (simp add: findRetryFunc_class)
  from lr show ?case
  proof (cases rule: lookupResult_cases)
    case (found x)
    then show ?thesis using Suc.prems fs by (auto simp: findClass_def)
  next
    case (awserr c m)
    then show ?thesis using Suc.prems fs
      by (auto simp: findClass_def NonRetryableError_def)
  next
    case (notfound m i)
    then have "RetryFrom (Some (NotFoundError m i)) k (findRetryFunc conn n) (g', tr') =
                 Some (err, (g1, tr1))"
      using Suc.prems fs by (simp add: findClass_def RetryableError_def)
    then show ?thesis by (rule Suc.IH)
  qed
qed

lemma findWithRetryFrom_result:
  assumes "findWithRetryFrom prev k conn n (g, tr) = Some ((g2, e2), tr2)"
  shows "(\<exists>x. g2 = Some x \<and> grant_SnapshotCopyGrantName x = n \<and> e2 = None) \<or>
         (g2 = None \<and> (\<exists>e. e2 = Some (Errorf ''Error finding snapshot copy grant: '' e)))"
proof -
  from assms obtain err g1 tr1 where
    r: "RetryFrom prev k (findRetryFunc conn n) (g, tr) = Some (err, (g1, tr1))"
    by (auto simp: findWithRetryFrom_def split: option.splits)
  show ?thesis
  proof (cases "err = Some TimeoutError")
    case True
    with assms r obtain y where y: "findAwsRedshiftSnapshotCopyGrant conn n None tr1 = Some y"
      by (auto simp: findWithRetryFrom_def findAfterRetry_def split: option.splits)
    obtain g' e tr' where yy: "y = ((g', e), tr')" by (cases y) auto
    from find_lookupResult[OF y] yy have "lookupResult n (g', e)" by simp
    then show ?thesis
      using assms r True y yy
      by (cases rule: lookupResult_cases) (auto simp: findWithRetryFrom_def findAfterRetry_def)
  next
    case False
    then have nt: "\<not> isResourceTimeoutError err" by (simp add: isResourceTimeoutError_iff)
    show ?thesis
    proof (cases err)
      case None
      with RetryFrom_find_result[OF r] obtain x where "g1 = Some x" "grant_SnapshotCopyGrantName x = n"
        by auto
      then show ?thesis using assms r None by (auto simp: findWithRetryFrom_def findAfterRetry_def)
    next
      case (Some e)
      then show ?thesis using assms r nt by (auto simp: findWithRetryFrom_def findAfterRetry_def)
    qed
  qed
qed

text \<open>With a run left, what the find helper does starts with a lookup by name.\<close>

lemma findWithRetryFrom_first_call:
  assumes "findWithRetryFrom prev (Suc k) conn n (g, tr) = Some (r, tr2)"
    and "prev \<noteq> Some TimeoutError"
  shows "\<exists>resp rest. tr2 = tr @ DescribeCall (describeInput n None) resp # rest"
proof -
  from assms(1) obtain err g1 tr1 where
    r: "RetryFrom prev (Suc k) (findRetryFunc conn n) (g, tr) = Some (err, (g1, tr1))"
    by (auto simp: findWithRetryFrom_def split: option.splits)
  from RetryFrom_find_trace[OF assms(2) r] obtain resp rest where
    ext: "tr1 = tr @ DescribeCall (describeInput n None) resp # rest" "err \<noteq> Some TimeoutError"
    by auto
  then have nt: "\<not> isResourceTimeoutError err" by (simp add: isResourceTimeoutError_iff)
  have "tr2 = tr1"
    using assms(1) r nt by (auto simp: findWithRetryFrom_def findAfterRetry_def split: option.splits)
  then show ?thesis using ext by auto
qed

text \<open>
  Claim C2, as stated, fails: a \<^verbatim>\<open>*resource.NotFoundError\<close> of the last run that ends
  before the timeout is not followed by another lookup. The service lists the grant from
  its second answer on and one run ends before the timeout: the helper returns the
  not-found error of the only lookup it makes, and a lookup made after it finds the grant.
\<close>

theorem not_found_not_retried_counterexample:
  "findAwsRedshiftSnapshotCopyGrantWithRetry lateGrantService ''grant-a'' [] =
     Some ((None, Some (Errorf ''Error finding snapshot copy grant: ''
                          (NotFoundError ''[DEBUG] Grant grant-a not found''
                             (describeInput ''grant-a'' None)))),
           [DescribeCall (describeInput ''grant-a'' None)
              (Inr \<lparr>dso_Marker = None, dso_SnapshotCopyGrants = []\<rparr>)]) \<and>
   findAwsRedshiftSnapshotCopyGrant lateGrantService ''grant-a'' None
     [DescribeCall (describeInput ''grant-a'' None)
        (Inr \<lparr>dso_Marker = None, dso_SnapshotCopyGrants = []\<rparr>)] =
     Some ((Some (exampleGrant ''grant-a''), None),
           [DescribeCall (describeInput ''grant-a'' None)
              (Inr \<lparr>dso_Marker = None, dso_SnapshotCopyGrants = []\<rparr>),
            DescribeCall (describeInput ''grant-a'' None)
              (Inr \<lparr>dso_Marker = None, dso_SnapshotCopyGrants = [exampleGrant ''grant-a'']\<rparr>)])"
  by code_simp

text \<open>
  Claim C2, amended. When the lookup made by the retried closure of
  \<^verbatim>\<open>findAwsRedshiftSnapshotCopyGrantWithRetry\<close> returns an error: a
  \<^verbatim>\<open>*resource.NotFoundError\<close> is retryable, and the helper goes on with one run less
  before the timeout and that error as the last one; when another run ends before the
  timeout, what it does next starts with another lookup by name, and when none does, it
  returns the not-found error, wrapped in the message
  \<^verbatim>\<open>Error finding snapshot copy grant\<close>, without another lookup. Every other error is
  non-retryable and the helper returns it at once, wrapped in that message.
\<close>

theorem retry_classifies_lookup_errors:
  assumes "findAwsRedshiftSnapshotCopyGrant conn grantName None tr = Some ((grant', Some e), tr1)"
  shows "(isNotFoundError e \<longrightarrow>
            findRetryFunc conn grantName (grant, tr) = Some (Some (Retryable e), (grant', tr1)) \<and>
            findWithRetryFrom prev (Suc k) conn grantName (grant, tr) =
              findWithRetryFrom (Some e) k conn grantName (grant', tr1) \<and>
            (k = 0 \<longrightarrow>
               findWithRetryFrom (Some e) k conn grantName (grant', tr1) =
                 Some ((None, Some (Errorf ''Error finding snapshot copy grant: '' e)), tr1)) \<and>
            (k \<noteq> 0 \<longrightarrow>
               (\<forall>r tr2. findWithRetryFrom (Some e) k conn grantName (grant', tr1) = Some (r, tr2) \<longrightarrow>
                  (\<exists>resp rest. tr2 = tr1 @ DescribeCall (describeInput grantName None) resp # rest))) \<and>
            (retryBudget conn tr = Suc k \<longrightarrow>
               findAwsRedshiftSnapshotCopyGrantWithRetry conn grantName tr =
                 findWithRetryFrom (Some e) k conn grantName (grant', tr1))) \<and>
         (\<not> isNotFoundError e \<longrightarrow>
            findRetryFunc conn grantName (grant, tr) = Some (Some (NonRetryable e), (grant', tr1)) \<and>
            findWithRetryFrom prev (Suc k) conn grantName (grant, tr) =
              Some ((None, Some (Errorf ''Error finding snapshot copy grant: '' e)), tr1) \<and>
            (retryBudget conn tr \<noteq> 0 \<longrightarrow>
               findAwsRedshiftSnapshotCopyGrantWithRetry conn grantName tr =
                 Some ((None, Some (Errorf ''Error finding snapshot copy grant: '' e)), tr1)))"
proof -
  have lr: "lookupResult grantName (grant', Some e)"
    using find_lookupResult[OF assms] by simp
  then have nt: "e \<noteq> TimeoutError"
    by (auto simp: lookupResult_def split: option.splits)
  have retry: "isNotFoundError e \<Longrightarrow>
      findRetryFunc conn grantName (g, tr) = Some (Some (Retryable e), (grant', tr1))" for g
    using assms by (simp add: findRetryFunc_def RetryableError_def)
  have fail: "\<not> isNotFoundError e \<Longrightarrow>
      findRetryFunc conn grantName (g, tr) = Some (Some (NonRetryable e), (grant', tr1))" for g
    using assms by (simp add: findRetryFunc_def NonRetryableError_def)
  have step: "isNotFoundError e \<Longrightarrow>
      findWithRetryFrom p (Suc k) conn grantName (g, tr) =
      findWithRetryFrom (Some e) k conn grantName (grant', tr1)" for p g
    using retry[of g] by (simp add: findWithRetryFrom_def)
  have stop: "\<not> isNotFoundError e \<Longrightarrow>
      findWithRetryFrom p (Suc j) conn grantName (g, tr) =
      Some ((None, Some (Errorf ''Error finding snapshot copy grant: '' e)), tr1)" for p j g
    using fail[of g] nt
    by (simp add: findWithRetryFrom_def findAfterRetry_def isResourceTimeoutError_iff)
  have last_run: "findWithRetryFrom (Some e) 0 conn grantName (grant', tr1) =
      Some ((None, Some (Errorf ''Error finding snapshot copy grant: '' e)), tr1)"
    using nt by (simp add: findWithRetryFrom_def findAfterRetry_def isResourceTimeoutError_iff)
  have first: "k \<noteq> 0 \<Longrightarrow>
      \<forall>r tr2. findWithRetryFrom (Some e) k conn grantName (grant', tr1) = Some (r, tr2) \<longrightarrow>
        (\<exists>resp rest. tr2 = tr1 @ DescribeCall (describeInput grantName None) resp # rest)"
  proof -
    assume "k \<noteq> 0"
    then obtain j where j: "k = Suc j" by (cases k) auto
    show ?thesis
      unfolding j using findWithRetryFrom_first_call[of "Some e" j conn grantName grant' tr1] nt
      by auto
  qed
  show ?thesis
  proof (intro conjI impI)
    assume "isNotFoundError e"
    then show "findRetryFunc conn grantName (grant, tr) = Some (Some (Retryable e), (grant', tr1))"
      by (rule retry)
  next
    assume "isNotFoundError e"
    then show "findWithRetryFrom prev (Suc k) conn grantName (grant, tr) =
              findWithRetryFrom (Some e) k conn grantName (grant', tr1)"
      by (rule step)
  next
    assume "k = 0"
    then show "findWithRetryFrom (Some e) k conn grantName (grant', tr1) =
                 Some ((None, Some (Errorf ''Error finding snapshot copy grant: '' e)), tr1)"
      using last_run by simp
  next
    assume "k \<noteq> 0"
    then show "\<forall>r tr2. findWithRetryFrom (Some e) k conn grantName (grant', tr1) = Some (r, tr2) \<longrightarrow>
                  (\<exists>resp rest. tr2 = tr1 @ DescribeCall (describeInput grantName None) resp # rest)"
      by (rule first)
  next
    assume "isNotFoundError e" "retryBudget conn tr = Suc k"
    then show "findAwsRedshiftSnapshotCopyGrantWithRetry conn grantName tr =
                 findWithRetryFrom (Some e) k conn grantName (grant', tr1)"
      using step[of None None] by (simp add: findWithRetry_from)
  next
    assume "\<not> isNotFoundError e"
    then show "findRetryFunc conn grantName (grant, tr) = Some (Some (NonRetryable e), (grant', tr1))"
      by (rule fail)
  next
    assume "\<not> isNotFoundError e"
    then show "findWithRetryFrom prev (Suc k) conn grantName (grant, tr) =
              Some ((None, Some (Errorf ''Error finding snapshot copy grant: '' e)), tr1)"
      by (rule stop)
  next
    assume a: "\<not> isNotFoundError e" "retryBudget conn tr \<noteq> 0"
    then obtain j where "retryBudget conn tr = Suc j" by (cases "retryBudget conn tr") auto
    then show "findAwsRedshiftSnapshotCopyGrantWithRetry conn grantName tr =
                 Some ((None, Some (Errorf ''Error finding snapshot copy grant: '' e)), tr1)"
      using stop[OF a(1), of None j None] by (simp add: findWithRetry_from)
  qed
qed

theorem retry_classifies_lookup_errors_witness:
  "findAwsRedshiftSnapshotCopyGrantWithRetry (failingService (''InternalFailure'', ''down'')) ''grant-a'' [] =
     Some ((None, Some (Errorf ''Error finding snapshot copy grant: ''
                          (AWSError ''InternalFailure'' ''down''))),
           [DescribeCall (describeInput ''grant-a'' None) (Inl (''InternalFailure'', ''down''))]) \<and>
   findAwsRedshiftSnapshotCopyGrantWithRetry emptyService ''grant-a'' [] =
     findWithRetryFrom
       (Some (NotFoundError ''[DEBUG] Grant grant-a not found'' (describeInput ''grant-a'' None)))
       1 emptyService ''grant-a''
       (None, [DescribeCall (describeInput ''grant-a'' None)
                 (Inr \<lparr>dso_Marker = None, dso_SnapshotCopyGrants = []\<rparr>)]) \<and>
   findAwsRedshiftSnapshotCopyGrantWithRetry lateGrantService ''grant-a'' [] =
     Some ((None, Some (Errorf ''Error finding snapshot copy grant: ''
                          (NotFoundError ''[DEBUG] Grant grant-a not found''
                             (describeInput ''grant-a'' None)))),
           [DescribeCall (describeInput ''grant-a'' None)
              (Inr \<lparr>dso_Marker = None, dso_SnapshotCopyGrants = []\<rparr>)])"
proof -
  have a: "findAwsRedshiftSnapshotCopyGrant (failingService (''InternalFailure'', ''down'')) ''grant-a'' None [] =
             Some ((None, Some (AWSError ''InternalFailure'' ''down'')),
                   [DescribeCall (describeInput ''grant-a'' None) (Inl (''InternalFailure'', ''down''))])"
    by (simp add: findAwsRedshiftSnapshotCopyGrant.simps[of _ _ None "[]"]
          DescribeSnapshotCopyGrants_def failingService_def Let_def)
  have b: "findAwsRedshiftSnapshotCopyGrant emptyService ''grant-a'' None [] =
             Some ((None, Some (NotFoundError ''[DEBUG] Grant grant-a not found''
                                  (describeInput ''grant-a'' None))),
                   [DescribeCall (describeInput ''grant-a'' None)
                      (Inr \<lparr>dso_Marker = None, dso_SnapshotCopyGrants = []\<rparr>)])"
    by (simp add: findAwsRedshiftSnapshotCopyGrant.simps[of _ _ None "[]"]
          DescribeSnapshotCopyGrants_def emptyService_def Let_def grantNotFound_def)
  have c: "findAwsRedshiftSnapshotCopyGrant lateGrantService ''grant-a'' None [] =
             Some ((None, Some (NotFoundError ''[DEBUG] Grant grant-a not found''
                                  (describeInput ''grant-a'' None))),
                   [DescribeCall (describeInput ''grant-a'' None)
                      (Inr \<lparr>dso_Marker = None, dso_SnapshotCopyGrants = []\<rparr>)])"
    by (simp add: findAwsRedshiftSnapshotCopyGrant.simps[of _ _ None "[]"]
          DescribeSnapshotCopyGrants_def lateGrantService_def emptyService_def Let_def
          grantNotFound_def)
  show ?thesis
    using retry_classifies_lookup_errors[OF a, of None None 0]
      retry_classifies_lookup_errors[OF b, of None None 1]
      retry_classifies_lookup_errors[OF c, of None None 0]
    by (simp add: failingService_def emptyService_def lateGrantService_def)
qed

subsection \<open>Bounded polling\<close>









lemma find_emptyService:
  "findAwsRedshiftSnapshotCopyGrant emptyService n None tr =
     Some ((None, Some (grantNotFound n (describeInput n None))),
           tr @ [DescribeCall (describeInput n None)
                   (Inr \<lparr>dso_Marker = None, dso_SnapshotCopyGrants = []\<rparr>)])"
  by (simp add: findAwsRedshiftSnapshotCopyGrant.simps[of _ _ None tr]
        DescribeSnapshotCopyGrants_def emptyService_def Let_def)




subsection \<open>The find helper never returns nothing\<close>

lemma RetryFrom_find_persistent_not_found:
  assumes nf: "\<forall>tr'. \<exists>m i tr''. findAwsRedshiftSnapshotCopyGrant conn n None tr' =
                 Some ((None, Some (NotFoundError m i)), tr'')"
  shows "prev = None \<or> (\<exists>m i. prev = Some (NotFoundError m i)) \<Longrightarrow>
         \<exists>err g1 tr1. RetryFrom prev k (findRetryFunc conn n) (g, tr) = Some (err, (g1, tr1)) \<and>
            (err = Some TimeoutError \<or> (\<exists>m i. err = Some (NotFoundError m i)))"
proof (induction k arbitrary: prev g tr)
  case 0
  then show ?case by auto
next
  case (Suc k)
  from nf obtain m i tr' where
    y: "findAwsRedshiftSnapshotCopyGrant conn n None tr = Some ((None, Some (NotFoundError m i)), tr')"
    by blast
  have "findRetryFunc conn n (g, tr) = Some (Some (Retryable (NotFoundError m i)), (None, tr'))"
    using y by (simp add: findRetryFunc_def RetryableError_def)
  then show ?case using Suc.IH[of "Some (NotFoundError m i)" None tr'] by simp
qed

lemma findWithRetryFrom_persistent_not_found:
  assumes nf: "\<forall>tr'. \<exists>m i tr''. findAwsRedshiftSnapshotCopyGrant conn n None tr' =
                 Some ((None, Some (NotFoundError m i)), tr'')"
  shows "\<exists>e tr2. isNotFoundError e \<and>
           findWithRetryFrom None k conn n (g, tr) =
             Some ((None, Some (Errorf ''Error finding snapshot copy grant: '' e)), tr2)"
proof -
  from RetryFrom_find_persistent_not_found[OF nf, of None] obtain err g1 tr1 where
    r: "RetryFrom None k (findRetryFunc conn n) (g, tr) = Some (err, (g1, tr1))"
    and err: "err = Some TimeoutError \<or> (\<exists>m i. err = Some (NotFoundError m i))"
    by blast
  from err show ?thesis
  proof
    assume t: "err = Some TimeoutError"
    from nf obtain m i tr2 where
      y: "findAwsRedshiftSnapshotCopyGrant conn n None tr1 = Some ((None, Some (NotFoundError m i)), tr2)"
      by blast
    have "findWithRetryFrom None k conn n (g, tr) =
            Some ((None, Some (Errorf ''Error finding snapshot copy grant: '' (NotFoundError m i))), tr2)"
      using r t y by (simp add: findWithRetryFrom_def findAfterRetry_def)
    then show ?thesis by (intro exI[of _ "NotFoundError m i"] exI[of _ tr2]) simp
  next
    assume "\<exists>m i. err = Some (NotFoundError m i)"
    then obtain m i where e: "err = Some (NotFoundError m i)" by blast
    have "findWithRetryFrom None k conn n (g, tr) =
            Some ((None, Some (Errorf ''Error finding snapshot copy grant: '' (NotFoundError m i))), tr1)"
      using r e by (simp add: findWithRetryFrom_def findAfterRetry_def)
    then show ?thesis by (intro exI[of _ "NotFoundError m i"] exI[of _ tr1]) simp
  qed
qed

lemma findWithRetry_result:
  assumes "findAwsRedshiftSnapshotCopyGrantWithRetry conn n tr = Some ((g2, e2), tr2)"
  shows "(\<exists>x. g2 = Some x \<and> grant_SnapshotCopyGrantName x = n \<and> e2 = None) \<or>
         (g2 = None \<and> (\<exists>e. e2 = Some (Errorf ''Error finding snapshot copy grant: '' e)))"
  using assms unfolding findWithRetry_from
  by (rule findWithRetryFrom_result)

lemma findWithRetry_trace:
  assumes "findAwsRedshiftSnapshotCopyGrantWithRetry conn n tr = Some (r, tr2)"
  shows "\<exists>ext. tr2 = tr @ ext \<and> (\<forall>c \<in> set ext. isDescribeCall c)"
proof -
  let ?k = "retryBudget conn tr"
  from assms have a: "findWithRetryFrom None ?k conn n (None, tr) = Some (r, tr2)"
    by (simp add: findWithRetry_from)
  then obtain err g1 tr1 where
    rt: "RetryFrom None ?k (findRetryFunc conn n) (None, tr) = Some (err, (g1, tr1))"
    by (auto simp: findWithRetryFrom_def split: option.splits)
  from RetryFrom_find_trace[OF _ rt] obtain ext where
    ext: "tr1 = tr @ ext" "\<forall>c \<in> set ext. isDescribeCall c"
    by auto
  show ?thesis
  proof (cases "err = Some TimeoutError")
    case True
    with a rt obtain y where y: "findAwsRedshiftSnapshotCopyGrant conn n None tr1 = Some y"
      and tr2: "tr2 = snd y"
      by (auto simp: findWithRetryFrom_def findAfterRetry_def split: option.splits)
    from find_trace[OF y] tr2 obtain resp rest where
      "tr2 = tr1 @ DescribeCall (describeInput n None) resp # rest"
      "\<forall>c \<in> set rest. isDescribeCall c" by auto
    then show ?thesis using ext
      by (intro exI[of _ "ext @ DescribeCall (describeInput n None) resp # rest"]) auto
  next
    case False
    then have nt: "\<not> isResourceTimeoutError err" by (simp add: isResourceTimeoutError_iff)
    have "tr2 = tr1"
      using a rt nt by (auto simp: findWithRetryFrom_def findAfterRetry_def split: option.splits)
    then show ?thesis using ext by auto
  qed
qed

text \<open>\<^verbatim>\<open>Read\<close> and \<^verbatim>\<open>Exists\<close> from the result of the retried lookup.\<close>

lemma Read_cases:
  assumes "findAwsRedshiftSnapshotCopyGrantWithRetry (redshiftconn meta) (rd_Id d) tr = Some ((grant, err), tr')"
  shows "resourceAwsRedshiftSnapshotCopyGrantRead kv meta d tr =
           Some ((case err of
                    Some e \<Rightarrow> (Some e, d)
                  | None \<Rightarrow>
                      (case grant of
                         None \<Rightarrow> (None, d\<lparr>rd_Id := ''''\<rparr>)
                       | Some g \<Rightarrow>
                           (None, d\<lparr>rd_arn := ARN_String (partition meta) ''redshift'' (region meta)
                                                (accountid meta) (''snapshotcopygrant:'' @ rd_Id d),
                                     rd_kms_key_id := (case grant_KmsKeyId g of None \<Rightarrow> '''' | Some v \<Rightarrow> v),
                                     rd_snapshot_copy_grant_name := grant_SnapshotCopyGrantName g,
                                     rd_tags := fromRedshiftTags kv (grant_Tags g)\<rparr>))),
                 tr')"
  using assms
  by (simp add: resourceAwsRedshiftSnapshotCopyGrantRead_def Let_def Set_tags_def Set_kms_key_id_def
        split: option.splits)

lemma Read_None:
  "findAwsRedshiftSnapshotCopyGrantWithRetry (redshiftconn meta) (rd_Id d) tr = None \<Longrightarrow>
   resourceAwsRedshiftSnapshotCopyGrantRead kv meta d tr = None"
  by (simp add: resourceAwsRedshiftSnapshotCopyGrantRead_def)

lemma Read_keeps_Id:
  assumes "resourceAwsRedshiftSnapshotCopyGrantRead kv meta d tr = Some ((err, d'), tr')"
  shows "rd_Id d' = rd_Id d"
proof (cases "findAwsRedshiftSnapshotCopyGrantWithRetry (redshiftconn meta) (rd_Id d) tr")
  case None
  then show ?thesis using assms by (simp add: Read_None)
next
  case (Some y)
  obtain g2 e2 tr2 where y: "y = ((g2, e2), tr2)" by (cases y) auto
  from findWithRetry_result[OF Some[unfolded y]] show ?thesis
    using assms Read_cases[OF Some[unfolded y], of kv] by auto
qed

lemma Exists_cases:
  assumes "findAwsRedshiftSnapshotCopyGrantWithRetry (redshiftconn meta) (rd_Id d) tr = Some ((grant, err), tr')"
  shows "resourceAwsRedshiftSnapshotCopyGrantExists meta d tr =
           Some ((case err of
                    Some e \<Rightarrow> (False, err)
                  | None \<Rightarrow> (case grant of Some g \<Rightarrow> (True, None) | None \<Rightarrow> (False, None))),
                 tr')"
  using assms
  by (simp add: resourceAwsRedshiftSnapshotCopyGrantExists_def Let_def split: option.splits)

lemma Exists_never_absent:
  "resourceAwsRedshiftSnapshotCopyGrantExists meta d tr \<noteq> Some ((False, None), tr')"
proof (cases "findAwsRedshiftSnapshotCopyGrantWithRetry (redshiftconn meta) (rd_Id d) tr")
  case None
  then show ?thesis by (simp add: resourceAwsRedshiftSnapshotCopyGrantExists_def)
next
  case (Some y)
  obtain g2 e2 tr2 where y: "y = ((g2, e2), tr2)" by (cases y) auto
  from findWithRetry_result[OF Some[unfolded y]] show ?thesis
    using Exists_cases[OF Some[unfolded y]] by auto
qed

text \<open>
  Claim C9. The find helper never returns a nil grant with a nil error: it returns a
  grant (of the requested name) with no error, or no grant with an error. When every
  lookup ends with a not-found error, the helper returns that error, wrapped, after the
  timeout. So \<^verbatim>\<open>Read\<close> never takes its branch that clears the ID, and \<^verbatim>\<open>Exists\<close>
  never returns \<^verbatim>\<open>(false, nil)\<close>.
\<close>

theorem lookup_with_retry_never_both_nil:
  "(\<forall>grant err tr'.
      findAwsRedshiftSnapshotCopyGrantWithRetry conn grantName tr = Some ((grant, err), tr') \<longrightarrow>
      (grant \<noteq> None \<and> err = None) \<or> (grant = None \<and> err \<noteq> None)) \<and>
   ((\<forall>tr'. \<exists>m i tr''. findAwsRedshiftSnapshotCopyGrant conn grantName None tr' =
        Some ((None, Some (NotFoundError m i)), tr'')) \<longrightarrow>
    (\<exists>e tr'. isNotFoundError e \<and>
       findAwsRedshiftSnapshotCopyGrantWithRetry conn grantName tr =
         Some ((None, Some (Errorf ''Error finding snapshot copy grant: '' e)), tr'))) \<and>
   (\<forall>err d' tr'.
      resourceAwsRedshiftSnapshotCopyGrantRead kv meta d tr = Some ((err, d'), tr') \<longrightarrow>
      rd_Id d' = rd_Id d \<and>
      (findAwsRedshiftSnapshotCopyGrantWithRetry (redshiftconn meta) (rd_Id d) tr \<noteq>
         Some ((None, None), tr'))) \<and>
   (\<forall>tr'. resourceAwsRedshiftSnapshotCopyGrantExists meta d tr \<noteq> Some ((False, None), tr'))"
proof (intro conjI allI impI)
  fix grant err tr'
  assume "findAwsRedshiftSnapshotCopyGrantWithRetry conn grantName tr = Some ((grant, err), tr')"
  from findWithRetry_result[OF this]
  show "(grant \<noteq> None \<and> err = None) \<or> (grant = None \<and> err \<noteq> None)" by auto
next
  assume "\<forall>tr'. \<exists>m i tr''. findAwsRedshiftSnapshotCopyGrant conn grantName None tr' =
        Some ((None, Some (NotFoundError m i)), tr'')"
  from findWithRetryFrom_persistent_not_found[OF this]
  show "\<exists>e tr'. isNotFoundError e \<and>
       findAwsRedshiftSnapshotCopyGrantWithRetry conn grantName tr =
         Some ((None, Some (Errorf ''Error finding snapshot copy grant: '' e)), tr')"
    by (simp add: findWithRetry_from)
next
  fix err d' tr'
  assume "resourceAwsRedshiftSnapshotCopyGrantRead kv meta d tr = Some ((err, d'), tr')"
  then show "rd_Id d' = rd_Id d" by (rule Read_keeps_Id)
next
  fix err d' tr'
  show "findAwsRedshiftSnapshotCopyGrantWithRetry (redshiftconn meta) (rd_Id d) tr \<noteq>
         Some ((None, None), tr')"
    using findWithRetry_result[of "redshiftconn meta" "rd_Id d" tr None None tr'] by auto
next
  fix tr'
  show "resourceAwsRedshiftSnapshotCopyGrantExists meta d tr \<noteq> Some ((False, None), tr')"
    by (rule Exists_never_absent)
qed

theorem lookup_with_retry_never_both_nil_witness:
  "(\<exists>e tr'. isNotFoundError e \<and>
      findAwsRedshiftSnapshotCopyGrantWithRetry emptyService ''grant-a'' [] =
        Some ((None, Some (Errorf ''Error finding snapshot copy grant: '' e)), tr')) \<and>
   rd_Id (snd (fst (the (resourceAwsRedshiftSnapshotCopyGrantRead exampleTags
                          (exampleClient oneGrantService) exampleData [])))) = ''grant-a''"
proof -
  have nf: "\<forall>tr'. \<exists>m i tr''. findAwsRedshiftSnapshotCopyGrant emptyService ''grant-a'' None tr' =
        Some ((None, Some (NotFoundError m i)), tr'')"
    by (simp add: find_emptyService grantNotFound_def)
  have rd: "resourceAwsRedshiftSnapshotCopyGrantRead exampleTags (exampleClient oneGrantService) exampleData [] =
      Some ((None,
             exampleData\<lparr>rd_arn := ''arn:aws:redshift:us-east-1:123456789012:snapshotcopygrant:grant-a'',
                         rd_kms_key_id := ''key-1''\<rparr>),
            [DescribeCall (describeInput ''grant-a'' None)
               (Inr \<lparr>dso_Marker = None, dso_SnapshotCopyGrants = [exampleGrant ''grant-a'']\<rparr>)])"
    by code_simp
  show ?thesis
    using lookup_with_retry_never_both_nil
      [of emptyService "''grant-a''" "[]" exampleTags "exampleClient oneGrantService" exampleData]
      nf rd
    by (simp add: exampleData_def)
qed

subsection \<open>Waiting for the deletion\<close>

lemma strings_Contains_empty [simp]: "strings_Contains s []"
  by (induction s) simp_all

lemma isAWSErr_code:
  "isAWSErr (Some (AWSError c m)) code '''' = (c = code)"
  by simp

text \<open>
  The half of claim C10 that holds: a lookup that reports absence with a
  \<^verbatim>\<open>*resource.NotFoundError\<close> makes the wait helper return an error.
\<close>

lemma wait_not_found_is_error:
  assumes "findAwsRedshiftSnapshotCopyGrant conn n None tr = Some ((None, Some (NotFoundError m i)), tr1)"
    and "retryBudget conn tr \<noteq> 0"
  shows "waitForAwsRedshiftSnapshotCopyGrantToBeDeleted conn n tr =
           Some (Some (Errorf ''Error waiting for snapshot copy grant to be deleted: ''
                         (NotFoundError m i)), tr1)"
proof -
  from assms(2) obtain k where k: "retryBudget conn tr = Suc k"
    by (cases "retryBudget conn tr") auto
  have "waitRetryFunc conn n (None, tr) = Some (Some (NonRetryable (NotFoundError m i)), (None, tr1))"
    using assms(1) by (simp add: waitRetryFunc_def NonRetryableError_def)
  then show ?thesis
    by (simp add: waitForAwsRedshiftSnapshotCopyGrantToBeDeleted_def waitAfterRetry_def Retry_def k)
qed

text \<open>
  When runs of the retried closure end before the timeout and the grant is still listed,
  the wait helper returns the error of the last run: the grant still exists.
\<close>

lemma wait_still_exists_is_error:
  "waitForAwsRedshiftSnapshotCopyGrantToBeDeleted oneGrantService ''grant-a'' [] =
     Some (Some (Errorf ''Error waiting for snapshot copy grant to be deleted: ''
                   (ErrorString ''[DEBUG] Grant still exists while expected to be deleted: grant-a'')),
       [DescribeCall (describeInput ''grant-a'' None)
          (Inr \<lparr>dso_Marker = None, dso_SnapshotCopyGrants = [exampleGrant ''grant-a'']\<rparr>),
        DescribeCall (describeInput ''grant-a'' None)
          (Inr \<lparr>dso_Marker = None, dso_SnapshotCopyGrants = [exampleGrant ''grant-a'']\<rparr>)])"
  by code_simp

text \<open>
  Claim C10 at the failing input: the service lists the grant in answer to every request
  and no run of the retried closure ends before the timeout, so that the retry reports a
  timeout error; the final lookup finds the grant, and the helper returns \<^verbatim>\<open>nil\<close> as if
  the grant were deleted, after a lookup that did not fail.
\<close>

theorem wait_returns_nil_while_grant_exists:
  "waitForAwsRedshiftSnapshotCopyGrantToBeDeleted slowGrantService ''grant-a'' [] =
     Some (None,
       [DescribeCall (describeInput ''grant-a'' None)
          (Inr \<lparr>dso_Marker = None, dso_SnapshotCopyGrants = [exampleGrant ''grant-a'']\<rparr>)])"
  by code_simp

subsection \<open>The operations of the resource\<close>

text \<open>
  Claim C4. When the \<^verbatim>\<open>DeleteSnapshotCopyGrant\<close> call fails with the code
  \<^verbatim>\<open>SnapshotCopyGrantNotFoundFault\<close>, \<^verbatim>\<open>Delete\<close> returns \<^verbatim>\<open>nil\<close>; when it fails with
  another code, \<^verbatim>\<open>Delete\<close> returns that error; in both cases the delete call is the only
  call made. When the call succeeds, \<^verbatim>\<open>Delete\<close> is the wait for the grant to disappear.
\<close>

theorem delete_maps_error_codes:
  "(\<forall>c m. deleteResp (redshiftconn meta) tr \<lparr>dli_SnapshotCopyGrantName = Some (rd_Id d)\<rparr> = Some (c, m) \<longrightarrow>
      resourceAwsRedshiftSnapshotCopyGrantDelete meta d tr =
        Some ((if c = ErrCodeSnapshotCopyGrantNotFoundFault then None else Some (AWSError c m)),
              tr @ [DeleteCall \<lparr>dli_SnapshotCopyGrantName = Some (rd_Id d)\<rparr> (Some (c, m))])) \<and>
   (deleteResp (redshiftconn meta) tr \<lparr>dli_SnapshotCopyGrantName = Some (rd_Id d)\<rparr> = None \<longrightarrow>
      resourceAwsRedshiftSnapshotCopyGrantDelete meta d tr =
        waitForAwsRedshiftSnapshotCopyGrantToBeDeleted (redshiftconn meta) (rd_Id d)
          (tr @ [DeleteCall \<lparr>dli_SnapshotCopyGrantName = Some (rd_Id d)\<rparr> None]))"
  by (simp add: resourceAwsRedshiftSnapshotCopyGrantDelete_def DeleteSnapshotCopyGrant_def Let_def)

theorem delete_maps_error_codes_witness:
  "resourceAwsRedshiftSnapshotCopyGrantDelete
     (exampleClient (failingService (''SnapshotCopyGrantNotFoundFault'', ''no such grant''))) exampleData [] =
     Some (None, [DeleteCall \<lparr>dli_SnapshotCopyGrantName = Some ''grant-a''\<rparr>
                    (Some (''SnapshotCopyGrantNotFoundFault'', ''no such grant''))]) \<and>
   resourceAwsRedshiftSnapshotCopyGrantDelete
     (exampleClient (failingService (''InternalFailure'', ''down''))) exampleData [] =
     Some (Some (AWSError ''InternalFailure'' ''down''),
           [DeleteCall \<lparr>dli_SnapshotCopyGrantName = Some ''grant-a''\<rparr>
              (Some (''InternalFailure'', ''down''))]) \<and>
   resourceAwsRedshiftSnapshotCopyGrantDelete (exampleClient emptyService) exampleData [] =
     waitForAwsRedshiftSnapshotCopyGrantToBeDeleted emptyService ''grant-a''
       [DeleteCall \<lparr>dli_SnapshotCopyGrantName = Some ''grant-a''\<rparr> None]"
  using delete_maps_error_codes
      [of "exampleClient (failingService (''SnapshotCopyGrantNotFoundFault'', ''no such grant''))" "[]" exampleData]
    delete_maps_error_codes
      [of "exampleClient (failingService (''InternalFailure'', ''down''))" "[]" exampleData]
    delete_maps_error_codes [of "exampleClient emptyService" "[]" exampleData]
  by (simp add: exampleClient_def failingService_def emptyService_def exampleData_def
        ErrCodeSnapshotCopyGrantNotFoundFault_def)





text \<open>
  Claim C7. The request of \<^verbatim>\<open>Create\<close> has the configured name, a key id exactly when
  \<^verbatim>\<open>kms_key_id\<close> is set, and the configured tags as \<^verbatim>\<open>keyvaluetags\<close> converts them. When
  the call fails, \<^verbatim>\<open>Create\<close> returns the error wrapped and leaves the data, the ID
  included, as it is; when it succeeds, \<^verbatim>\<open>Create\<close> sets the ID to the name and is
  \<^verbatim>\<open>Read\<close> from there.
\<close>

theorem create_maps_configuration:
  "csi_SnapshotCopyGrantName (createInput kv d) = Some (rd_snapshot_copy_grant_name d) \<and>
   csi_KmsKeyId (createInput kv d) =
     (if snd (GetOk_kms_key_id d) then Some (rd_kms_key_id d) else None) \<and>
   csi_Tags (createInput kv d) = toRedshiftTags kv (rd_tags d) \<and>
   (\<forall>c m. createResp (redshiftconn meta) tr (createInput kv d) = Inl (c, m) \<longrightarrow>
      resourceAwsRedshiftSnapshotCopyGrantCreate kv meta d tr =
        Some ((Some (Errorf (''error creating Redshift Snapshot Copy Grant ('' @
                             rd_snapshot_copy_grant_name d @ ''): '') (AWSError c m)), d),
              tr @ [CreateCall (createInput kv d) (Inl (c, m))])) \<and>
   (\<forall>out. createResp (redshiftconn meta) tr (createInput kv d) = Inr out \<longrightarrow>
      resourceAwsRedshiftSnapshotCopyGrantCreate kv meta d tr =
        resourceAwsRedshiftSnapshotCopyGrantRead kv meta
          (d\<lparr>rd_Id := rd_snapshot_copy_grant_name d\<rparr>)
          (tr @ [CreateCall (createInput kv d) (Inr out)]))"
  by (simp add: resourceAwsRedshiftSnapshotCopyGrantCreate_def CreateSnapshotCopyGrant_def
        createInput_def GetOk_kms_key_id_def Let_def)

theorem create_maps_configuration_witness:
  "resourceAwsRedshiftSnapshotCopyGrantCreate exampleTags
     (exampleClient (failingService (''SnapshotCopyGrantAlreadyExistsFault'', ''exists'')))
     (exampleData\<lparr>rd_Id := ''''\<rparr>) [] =
     Some ((Some (Errorf ''error creating Redshift Snapshot Copy Grant (grant-a): ''
                    (AWSError ''SnapshotCopyGrantAlreadyExistsFault'' ''exists'')),
            exampleData\<lparr>rd_Id := ''''\<rparr>),
           [CreateCall \<lparr>csi_SnapshotCopyGrantName = Some ''grant-a'', csi_KmsKeyId = None,
                        csi_Tags = [(''env'', ''test'')]\<rparr>
              (Inl (''SnapshotCopyGrantAlreadyExistsFault'', ''exists''))]) \<and>
   resourceAwsRedshiftSnapshotCopyGrantCreate exampleTags (exampleClient oneGrantService)
     (exampleData\<lparr>rd_Id := '''', rd_kms_key_id := ''key-1''\<rparr>) [] =
     resourceAwsRedshiftSnapshotCopyGrantRead exampleTags (exampleClient oneGrantService)
       (exampleData\<lparr>rd_Id := ''grant-a'', rd_kms_key_id := ''key-1''\<rparr>)
       [CreateCall \<lparr>csi_SnapshotCopyGrantName = Some ''grant-a'', csi_KmsKeyId = Some ''key-1'',
                    csi_Tags = [(''env'', ''test'')]\<rparr>
          (Inr \<lparr>cso_SnapshotCopyGrant = exampleGrant ''grant-a''\<rparr>)]"
  using create_maps_configuration
      [of exampleTags "exampleData\<lparr>rd_Id := ''''\<rparr>"
          "exampleClient (failingService (''SnapshotCopyGrantAlreadyExistsFault'', ''exists''))" "[]"]
    create_maps_configuration
      [of exampleTags "exampleData\<lparr>rd_Id := '''', rd_kms_key_id := ''key-1''\<rparr>"
          "exampleClient oneGrantService" "[]"]
  by (simp add: exampleClient_def failingService_def oneGrantService_def emptyService_def
        exampleData_def exampleTags_def createInput_def GetOk_kms_key_id_def Let_def)



subsection \<open>The update of the tags\<close>

lemma Read_trace:
  assumes "resourceAwsRedshiftSnapshotCopyGrantRead kv meta d tr = Some (res, tr2)"
  shows "\<exists>ext. tr2 = tr @ ext \<and> (\<forall>c \<in> set ext. isDescribeCall c)"
proof (cases "findAwsRedshiftSnapshotCopyGrantWithRetry (redshiftconn meta) (rd_Id d) tr")
  case None
  then show ?thesis using assms by (simp add: Read_None)
next
  case (Some y)
  obtain g2 e2 tr' where y: "y = ((g2, e2), tr')" by (cases y) auto
  have "tr2 = tr'"
    using assms Read_cases[OF Some[unfolded y], of kv] by simp
  then show ?thesis
    using findWithRetry_trace[OF Some[unfolded y]] by simp
qed

lemma describe_is_no_update: "isDescribeCall c \<Longrightarrow> \<not> isUpdateTagsCall c"
  by (cases c) simp_all

lemma no_update_in_describes:
  "\<forall>c \<in> set ext. isDescribeCall c \<Longrightarrow> filter isUpdateTagsCall ext = []"
  by (induction ext) (auto dest: describe_is_no_update)

text \<open>
  Claim C5, as stated, fails: when the tags have changed and the change of tags is
  refused, \<^verbatim>\<open>Update\<close> returns the error after the one call, and does not perform
  \<^verbatim>\<open>Read\<close>, which would have looked the grant up and returned \<^verbatim>\<open>nil\<close>.
\<close>

theorem update_skips_read_counterexample:
  "resourceAwsRedshiftSnapshotCopyGrantUpdate exampleTags (exampleClient tagFailService) storedData [] =
     Some ((Some (Errorf
              ''error updating Redshift Snapshot Copy Grant (arn:aws:redshift:us-east-1:123456789012:snapshotcopygrant:grant-a) tags: ''
              (ErrorString ''tagging failed'')),
            storedData),
           [UpdateTagsCall ''arn:aws:redshift:us-east-1:123456789012:snapshotcopygrant:grant-a''
              [] [(''env'', ''test'')] (Some (ErrorString ''tagging failed''))]) \<and>
   resourceAwsRedshiftSnapshotCopyGrantRead exampleTags (exampleClient tagFailService) storedData
     [UpdateTagsCall ''arn:aws:redshift:us-east-1:123456789012:snapshotcopygrant:grant-a''
        [] [(''env'', ''test'')] (Some (ErrorString ''tagging failed''))] =
     Some ((None, storedData),
           [UpdateTagsCall ''arn:aws:redshift:us-east-1:123456789012:snapshotcopygrant:grant-a''
              [] [(''env'', ''test'')] (Some (ErrorString ''tagging failed'')),
            DescribeCall (describeInput ''grant-a'' None)
              (Inr \<lparr>dso_Marker = None, dso_SnapshotCopyGrants = [exampleGrant ''grant-a'']\<rparr>)]) \<and>
   resourceAwsRedshiftSnapshotCopyGrantUpdate exampleTags (exampleClient tagFailService) storedData [] \<noteq>
   resourceAwsRedshiftSnapshotCopyGrantRead exampleTags (exampleClient tagFailService) storedData
     [UpdateTagsCall ''arn:aws:redshift:us-east-1:123456789012:snapshotcopygrant:grant-a''
        [] [(''env'', ''test'')] (Some (ErrorString ''tagging failed''))]"
  by code_simp

text \<open>
  Claim C5, amended. \<^verbatim>\<open>Update\<close> calls \<^verbatim>\<open>keyvaluetags.RedshiftUpdateTags\<close> exactly when
  the tags have changed, with the ARN, the old and the new tags. When that call fails,
  \<^verbatim>\<open>Update\<close> returns the error wrapped, with the data as it is and without performing
  \<^verbatim>\<open>Read\<close>; otherwise it is \<^verbatim>\<open>Read\<close> from there. Every call it makes is that change
  of tags or a \<^verbatim>\<open>DescribeSnapshotCopyGrants\<close>.
\<close>

theorem update_tags_then_read:
  "(HasChange_tags d \<longrightarrow>
      (\<forall>e. updateTagsResp (redshiftconn meta) tr (rd_arn d) (rd_tags_old d) (rd_tags d) = Some e \<longrightarrow>
         resourceAwsRedshiftSnapshotCopyGrantUpdate kv meta d tr =
           Some ((Some (Errorf (''error updating Redshift Snapshot Copy Grant ('' @ rd_arn d @
                                '') tags: '') e), d),
                 tr @ [UpdateTagsCall (rd_arn d) (rd_tags_old d) (rd_tags d) (Some e)])) \<and>
      (updateTagsResp (redshiftconn meta) tr (rd_arn d) (rd_tags_old d) (rd_tags d) = None \<longrightarrow>
         resourceAwsRedshiftSnapshotCopyGrantUpdate kv meta d tr =
           resourceAwsRedshiftSnapshotCopyGrantRead kv meta d
             (tr @ [UpdateTagsCall (rd_arn d) (rd_tags_old d) (rd_tags d) None]))) \<and>
   (\<not> HasChange_tags d \<longrightarrow>
      resourceAwsRedshiftSnapshotCopyGrantUpdate kv meta d tr =
        resourceAwsRedshiftSnapshotCopyGrantRead kv meta d tr) \<and>
   (\<forall>res tr2. resourceAwsRedshiftSnapshotCopyGrantUpdate kv meta d tr = Some (res, tr2) \<longrightarrow>
      (\<exists>ext. tr2 = tr @ ext \<and>
         (\<forall>c \<in> set ext. isDescribeCall c \<or> isUpdateTagsCall c) \<and>
         length (filter isUpdateTagsCall ext) = (if HasChange_tags d then 1 else 0)))"
proof (intro conjI allI impI)
  fix e
  assume "HasChange_tags d"
    and "updateTagsResp (redshiftconn meta) tr (rd_arn d) (rd_tags_old d) (rd_tags d) = Some e"
  then show "resourceAwsRedshiftSnapshotCopyGrantUpdate kv meta d tr =
           Some ((Some (Errorf (''error updating Redshift Snapshot Copy Grant ('' @ rd_arn d @
                                '') tags: '') e), d),
                 tr @ [UpdateTagsCall (rd_arn d) (rd_tags_old d) (rd_tags d) (Some e)])"
    by (simp add: resourceAwsRedshiftSnapshotCopyGrantUpdate_def RedshiftUpdateTags_def
          GetChange_tags_def Let_def)
next
  assume "HasChange_tags d"
    and "updateTagsResp (redshiftconn meta) tr (rd_arn d) (rd_tags_old d) (rd_tags d) = None"
  then show "resourceAwsRedshiftSnapshotCopyGrantUpdate kv meta d tr =
           resourceAwsRedshiftSnapshotCopyGrantRead kv meta d
             (tr @ [UpdateTagsCall (rd_arn d) (rd_tags_old d) (rd_tags d) None])"
    by (simp add: resourceAwsRedshiftSnapshotCopyGrantUpdate_def RedshiftUpdateTags_def
          GetChange_tags_def Let_def)
next
  assume "\<not> HasChange_tags d"
  then show "resourceAwsRedshiftSnapshotCopyGrantUpdate kv meta d tr =
        resourceAwsRedshiftSnapshotCopyGrantRead kv meta d tr"
    by (simp add: resourceAwsRedshiftSnapshotCopyGrantUpdate_def)
next
  fix res tr2
  assume u: "resourceAwsRedshiftSnapshotCopyGrantUpdate kv meta d tr = Some (res, tr2)"
  let ?r = "updateTagsResp (redshiftconn meta) tr (rd_arn d) (rd_tags_old d) (rd_tags d)"
  let ?c = "UpdateTagsCall (rd_arn d) (rd_tags_old d) (rd_tags d) ?r"
  show "\<exists>ext. tr2 = tr @ ext \<and>
         (\<forall>c \<in> set ext. isDescribeCall c \<or> isUpdateTagsCall c) \<and>
         length (filter isUpdateTagsCall ext) = (if HasChange_tags d then 1 else 0)"
  proof (cases "HasChange_tags d")
    case False
    with u have "resourceAwsRedshiftSnapshotCopyGrantRead kv meta d tr = Some (res, tr2)"
      by (simp add: resourceAwsRedshiftSnapshotCopyGrantUpdate_def)
    from Read_trace[OF this] obtain ext where
      "tr2 = tr @ ext" "\<forall>c \<in> set ext. isDescribeCall c" by blast
    then show ?thesis using False no_update_in_describes[of ext] by auto
  next
    case True
    show ?thesis
    proof (cases ?r)
      case (Some e)
      with u True have "tr2 = tr @ [?c]"
        by (simp add: resourceAwsRedshiftSnapshotCopyGrantUpdate_def RedshiftUpdateTags_def
              GetChange_tags_def Let_def)
      then show ?thesis using True by (intro exI[of _ "[?c]"]) simp
    next
      case None
      with u True have "resourceAwsRedshiftSnapshotCopyGrantRead kv meta d (tr @ [?c]) = Some (res, tr2)"
        by (simp add: resourceAwsRedshiftSnapshotCopyGrantUpdate_def RedshiftUpdateTags_def
              GetChange_tags_def Let_def)
      from Read_trace[OF this] obtain ext where
        ext: "tr2 = (tr @ [?c]) @ ext" "\<forall>c \<in> set ext. isDescribeCall c" by blast
      then show ?thesis using True no_update_in_describes[of ext]
        by (intro exI[of _ "?c # ext"]) auto
    qed
  qed
qed

theorem update_tags_then_read_witness:
  "resourceAwsRedshiftSnapshotCopyGrantUpdate exampleTags (exampleClient tagFailService) storedData [] =
     Some ((Some (Errorf (''error updating Redshift Snapshot Copy Grant ('' @ rd_arn storedData @
                          '') tags: '') (ErrorString ''tagging failed'')), storedData),
           [UpdateTagsCall (rd_arn storedData) [] [(''env'', ''test'')]
              (Some (ErrorString ''tagging failed''))]) \<and>
   resourceAwsRedshiftSnapshotCopyGrantUpdate exampleTags (exampleClient oneGrantService) storedData [] =
     resourceAwsRedshiftSnapshotCopyGrantRead exampleTags (exampleClient oneGrantService) storedData
       [UpdateTagsCall (rd_arn storedData) [] [(''env'', ''test'')] None] \<and>
   resourceAwsRedshiftSnapshotCopyGrantUpdate exampleTags (exampleClient oneGrantService)
       (storedData\<lparr>rd_tags_old := [(''env'', ''test'')]\<rparr>) [] =
     resourceAwsRedshiftSnapshotCopyGrantRead exampleTags (exampleClient oneGrantService)
       (storedData\<lparr>rd_tags_old := [(''env'', ''test'')]\<rparr>) []"
  using update_tags_then_read [of storedData "exampleClient tagFailService" "[]" exampleTags]
    update_tags_then_read [of storedData "exampleClient oneGrantService" "[]" exampleTags]
    update_tags_then_read
      [of "storedData\<lparr>rd_tags_old := [(''env'', ''test'')]\<rparr>" "exampleClient oneGrantService" "[]"
          exampleTags]
  by (simp add: HasChange_tags_def storedData_def exampleClient_def tagFailService_def
        oneGrantService_def emptyService_def)

end
